theory Spec2Isabelle
  imports Main
begin

section \<open>Thrown values\<close>

text \<open>
  The classes of \<^verbatim>\<open>src/types/errors.ts\<close>, together with the built-in \<^verbatim>\<open>Error\<close>.
  A JavaScript \<^verbatim>\<open>throw\<close> may also carry a value that is no \<^verbatim>\<open>Error\<close> at all; it is kept with
  the text \<^verbatim>\<open>String(value)\<close> gives for it.  Every \<^verbatim>\<open>async\<close> method becomes a function from the
  state of the world to a result (\<open>Inl\<close> what was thrown, \<open>Inr\<close> what was returned) and the
  state afterwards.
\<close>

datatype error_class =
  Error | AppError | ValidationError | NotFoundError | ConflictError | DatabaseError

datatype thrown = Thrown error_class string | NonError string

type_synonym ('s, 'a) async = "'s \<Rightarrow> (thrown + 'a) \<times> 's"

fun className :: "error_class \<Rightarrow> string" where
  "className Error = ''Error''"
| "className AppError = ''AppError''"
| "className ValidationError = ''ValidationError''"
| "className NotFoundError = ''NotFoundError''"
| "className ConflictError = ''ConflictError''"
| "className DatabaseError = ''DatabaseError''"

text \<open>\<^verbatim>\<open>`${error}`\<close>: for an \<^verbatim>\<open>Error\<close> the name, a colon and the message.\<close>

fun toString :: "thrown \<Rightarrow> string" where
  "toString (Thrown c m) = (if m = [] then className c else className c @ '': '' @ m)"
| "toString (NonError v) = v"

text \<open>\<^verbatim>\<open>haystack.includes(needle)\<close> on strings.\<close>

fun stringIncludes :: "string \<Rightarrow> string \<Rightarrow> bool" where
  "stringIncludes [] needle = (needle = [])"
| "stringIncludes (c # cs) needle = (take (length needle) (c # cs) = needle \<or> stringIncludes cs needle)"

text \<open>JavaScript truthiness of a value of type \<^verbatim>\<open>string | undefined\<close>.\<close>

fun truthy :: "string option \<Rightarrow> bool" where
  "truthy None = False"
| "truthy (Some v) = (v \<noteq> [])"


section \<open>The data model (types/note)\<close>

record Note =
  note_id :: string
  note_rev :: "string option"
  note_title :: string
  note_content :: string
  note_key :: string
  note_updated_at :: string
  note_created_at :: string
  note_workspace_id :: string
  note_deleted :: "bool option"

record SyncRequest =
  req_id :: string
  req_rev :: "string option"
  req_title :: "string option"
  req_content :: "string option"
  req_key :: "string option"
  req_updated_at :: string
  req_workspace_id :: "string option"
  req_deleted :: "bool option"

text \<open>The seven fields the service copies into \<^verbatim>\<open>server_doc\<close> (a \<^verbatim>\<open>Partial<Note>\<close>).\<close>

record ServerDoc =
  doc_rev :: "string option"
  doc_title :: string
  doc_content :: string
  doc_key :: string
  doc_updated_at :: string
  doc_workspace_id :: string
  doc_deleted :: "bool option"

record SyncResult =
  res_id :: string
  res_ok :: bool
  res_rev :: "string option"
  res_conflict :: "bool option"
  res_server_doc :: "ServerDoc option"
  res_error :: "string option"

record SyncResponse =
  results :: "SyncResult list"

text \<open>The argument of the \<^verbatim>\<open>NoteModel\<close> constructor: a note without its timestamps, the id optional.\<close>

record NoteData =
  data_id :: "string option"
  data_rev :: "string option"
  data_title :: string
  data_content :: string
  data_key :: string
  data_workspace_id :: string
  data_deleted :: "bool option"

text \<open>The partial field set of \<^verbatim>\<open>SyncService.updateNote\<close>.\<close>

record NoteUpdates =
  upd_title :: "string option"
  upd_content :: "string option"
  upd_key :: "string option"
  upd_workspace_id :: "string option"
  upd_deleted :: "bool option"


section \<open>What the service consumes\<close>

text \<open>
  \<^verbatim>\<open>INoteRepository\<close>, restricted to the four methods \<^verbatim>\<open>SyncService\<close> calls.  The state \<open>'s\<close> is
  the state of everything outside the service: the document store and the clock.
\<close>

record 's INoteRepository =
  findById :: "string \<Rightarrow> ('s, Note option) async"
  create :: "Note \<Rightarrow> ('s, Note) async"
  update :: "Note \<Rightarrow> ('s, Note) async"
  findByWorkspace :: "string \<Rightarrow> ('s, Note list) async"

text \<open>
  The built-ins of the JavaScript runtime the code reads: \<open>now\<close> is
  \<^verbatim>\<open>new Date().toISOString()\<close>, \<open>generateId\<close> is the text
  \<^verbatim>\<open>`note:${Date.now()}-${Math.random().toString(36).substr(2, 9)}`\<close>, and \<open>dateValue\<close> is the time
  value of \<^verbatim>\<open>new Date(text)\<close> in milliseconds, \<open>None\<close> for an invalid date (\<^verbatim>\<open>NaN\<close>).
\<close>

record 's Runtime =
  now :: "'s \<Rightarrow> string"
  generateId :: "'s \<Rightarrow> string"
  dateValue :: "string \<Rightarrow> int option"

text \<open>\<^verbatim>\<open>a > b\<close> on two \<^verbatim>\<open>Date\<close> objects: a comparison with \<^verbatim>\<open>NaN\<close> is false.\<close>

fun laterThan :: "int option \<Rightarrow> int option \<Rightarrow> bool" where
  "laterThan (Some a) (Some b) = (a > b)"
| "laterThan _ _ = False"


section \<open>The note entity (models/Note.ts)\<close>

definition NoteModel :: "'s Runtime \<Rightarrow> 's \<Rightarrow> NoteData \<Rightarrow> Note" where
  "NoteModel rt s data =
     \<lparr> note_id = (if truthy (data_id data) then the (data_id data) else generateId rt s),
       note_rev = data_rev data,
       note_title = data_title data,
       note_content = data_content data,
       note_key = data_key data,
       note_updated_at = now rt s,
       note_created_at = now rt s,
       note_workspace_id = data_workspace_id data,
       note_deleted = Some (case data_deleted data of Some d \<Rightarrow> d | None \<Rightarrow> False) \<rparr>"

definition toJSON :: "Note \<Rightarrow> Note" where
  "toJSON n =
     \<lparr> note_id = note_id n,
       note_rev = note_rev n,
       note_title = note_title n,
       note_content = note_content n,
       note_key = note_key n,
       note_updated_at = note_updated_at n,
       note_created_at = note_created_at n,
       note_workspace_id = note_workspace_id n,
       note_deleted = note_deleted n \<rparr>"

definition isNewer :: "'s Runtime \<Rightarrow> Note \<Rightarrow> Note \<Rightarrow> bool" where
  "isNewer rt this otherNote =
     laterThan (dateValue rt (note_updated_at this)) (dateValue rt (note_updated_at otherNote))"

text \<open>\<^verbatim>\<open>NoteModel.fromCouchDoc\<close>; the cast \<^verbatim>\<open>doc as unknown as Note\<close> reads the document as a note.\<close>

definition fromCouchDoc :: "'s Runtime \<Rightarrow> 's \<Rightarrow> Note \<Rightarrow> Note" where
  "fromCouchDoc rt s noteDoc =
     (NoteModel rt s
        \<lparr> data_id = Some (note_id noteDoc),
          data_rev = note_rev noteDoc,
          data_title = note_title noteDoc,
          data_content = note_content noteDoc,
          data_key = note_key noteDoc,
          data_workspace_id = note_workspace_id noteDoc,
          data_deleted = note_deleted noteDoc \<rparr>)
       \<lparr> note_created_at := note_created_at noteDoc,
         note_updated_at := note_updated_at noteDoc \<rparr>"


section \<open>The synchronization engine (SyncService)\<close>

definition serverDoc :: "Note \<Rightarrow> ServerDoc" where
  "serverDoc n =
     \<lparr> doc_rev = note_rev n,
       doc_title = note_title n,
       doc_content = note_content n,
       doc_key = note_key n,
       doc_updated_at = note_updated_at n,
       doc_workspace_id = note_workspace_id n,
       doc_deleted = note_deleted n \<rparr>"

text \<open>The three shapes of result the service builds.\<close>

definition saved :: "Note \<Rightarrow> SyncResult" where
  "saved savedNote =
     \<lparr> res_id = note_id savedNote, res_ok = True, res_rev = note_rev savedNote,
       res_conflict = Some False, res_server_doc = None, res_error = None \<rparr>"

definition conflicting :: "SyncRequest \<Rightarrow> ServerDoc option \<Rightarrow> SyncResult" where
  "conflicting syncRequest doc =
     \<lparr> res_id = req_id syncRequest, res_ok = False, res_rev = None,
       res_conflict = Some True, res_server_doc = doc, res_error = None \<rparr>"

definition failed :: "SyncRequest \<Rightarrow> thrown \<Rightarrow> SyncResult" where
  "failed syncRequest error =
     \<lparr> res_id = req_id syncRequest, res_ok = False, res_rev = None,
       res_conflict = None, res_server_doc = None,
       res_error = Some (case error of Thrown c m \<Rightarrow> m | NonError v \<Rightarrow> ''Unknown error occurred'') \<rparr>"

text \<open>\<^verbatim>\<open>createNewNote\<close>: the note it builds (the local \<^verbatim>\<open>newNote\<close> when it is handed to \<^verbatim>\<open>toJSON\<close>).\<close>

definition newNote :: "'s Runtime \<Rightarrow> 's \<Rightarrow> SyncRequest \<Rightarrow> Note" where
  "newNote rt s syncRequest =
     (NoteModel rt s
        \<lparr> data_id = Some (req_id syncRequest),
          data_rev = None,
          data_title = the (req_title syncRequest),
          data_content = the (req_content syncRequest),
          data_key = the (req_key syncRequest),
          data_workspace_id = the (req_workspace_id syncRequest),
          data_deleted = Some (case req_deleted syncRequest of Some d \<Rightarrow> d | None \<Rightarrow> False) \<rparr>)
       \<lparr> note_updated_at := req_updated_at syncRequest \<rparr>"

definition createNewNote ::
  "'s INoteRepository \<Rightarrow> 's Runtime \<Rightarrow> SyncRequest \<Rightarrow> ('s, SyncResult) async" where
  "createNewNote repo rt syncRequest s =
     (if \<not> truthy (req_title syncRequest) \<or> \<not> truthy (req_content syncRequest) \<or>
         \<not> truthy (req_key syncRequest) \<or> \<not> truthy (req_workspace_id syncRequest)
      then (Inl (Thrown ValidationError
                  ''Title, content, key, and workspace_id are required for new notes''), s)
      else (case create repo (toJSON (newNote rt s syncRequest)) s of
              (Inl error, s') \<Rightarrow> (Inl error, s')
            | (Inr savedNote, s') \<Rightarrow> (Inr (saved savedNote), s')))"

text \<open>\<^verbatim>\<open>updateNoteFromSync\<close>: the local \<^verbatim>\<open>updatedNote\<close> when it is handed to \<^verbatim>\<open>update\<close>.\<close>

definition updatedNote :: "SyncRequest \<Rightarrow> Note \<Rightarrow> Note" where
  "updatedNote syncRequest existingNote =
     (let n0 = existingNote \<lparr> note_rev := note_rev existingNote \<rparr>;
          n1 = (case req_title syncRequest of Some v \<Rightarrow> n0 \<lparr> note_title := v \<rparr> | None \<Rightarrow> n0);
          n2 = (case req_content syncRequest of Some v \<Rightarrow> n1 \<lparr> note_content := v \<rparr> | None \<Rightarrow> n1);
          n3 = (case req_key syncRequest of Some v \<Rightarrow> n2 \<lparr> note_key := v \<rparr> | None \<Rightarrow> n2);
          n4 = (case req_deleted syncRequest of Some v \<Rightarrow> n3 \<lparr> note_deleted := Some v \<rparr> | None \<Rightarrow> n3);
          n5 = (case req_workspace_id syncRequest of
                  Some v \<Rightarrow> n4 \<lparr> note_workspace_id := v \<rparr> | None \<Rightarrow> n4)
      in n5 \<lparr> note_updated_at := req_updated_at syncRequest \<rparr>)"

text \<open>\<^verbatim>\<open>error instanceof Error && error.message.includes("conflict")\<close>\<close>

fun isConflict :: "thrown \<Rightarrow> bool" where
  "isConflict (Thrown c m) = stringIncludes m ''conflict''"
| "isConflict (NonError v) = False"

definition updateNoteFromSync ::
  "'s INoteRepository \<Rightarrow> SyncRequest \<Rightarrow> Note \<Rightarrow> ('s, SyncResult) async" where
  "updateNoteFromSync repo syncRequest existingNote s =
     (case update repo (updatedNote syncRequest existingNote) s of
        (Inr savedNote, s') \<Rightarrow> (Inr (saved savedNote), s')
      | (Inl error, s') \<Rightarrow>
          (if isConflict error
           then (case findById repo (req_id syncRequest) s' of
                   (Inl error', s'') \<Rightarrow> (Inl error', s'')
                 | (Inr currentNote, s'') \<Rightarrow>
                     (Inr (conflicting syncRequest (map_option serverDoc currentNote)), s''))
           else (Inl error, s')))"

definition handleExistingNote ::
  "'s INoteRepository \<Rightarrow> 's Runtime \<Rightarrow> SyncRequest \<Rightarrow> Note \<Rightarrow> ('s, SyncResult) async" where
  "handleExistingNote repo rt syncRequest existingNote s =
     (let clientUpdatedAt = dateValue rt (req_updated_at syncRequest);
          serverUpdatedAt = dateValue rt (note_updated_at existingNote)
      in if truthy (req_rev syncRequest) \<and> req_rev syncRequest = note_rev existingNote
         then updateNoteFromSync repo syncRequest existingNote s
         else if laterThan clientUpdatedAt serverUpdatedAt
         then updateNoteFromSync repo syncRequest existingNote s
         else if laterThan serverUpdatedAt clientUpdatedAt
         then (Inr (conflicting syncRequest (Some (serverDoc existingNote))), s)
         else updateNoteFromSync repo syncRequest existingNote s)"

definition processSingleNote ::
  "'s INoteRepository \<Rightarrow> 's Runtime \<Rightarrow> SyncRequest \<Rightarrow> ('s, SyncResult) async" where
  "processSingleNote repo rt syncRequest s =
     (if req_id syncRequest = [] \<or> req_updated_at syncRequest = []
      then (Inl (Thrown ValidationError ''Note ID and updated_at are required''), s)
      else (case findById repo (req_id syncRequest) s of
              (Inl error, s') \<Rightarrow> (Inl error, s')
            | (Inr None, s') \<Rightarrow> createNewNote repo rt syncRequest s'
            | (Inr (Some existingNote), s') \<Rightarrow> handleExistingNote repo rt syncRequest existingNote s'))"

text \<open>
  The body of the loop of \<^verbatim>\<open>syncNotes\<close>: the \<^verbatim>\<open>try\<close> pushes the result of the item, the
  \<^verbatim>\<open>catch\<close> pushes a failed result in its place.  \<open>syncItem\<close> is the result pushed.
\<close>

definition syncItem ::
  "'s INoteRepository \<Rightarrow> 's Runtime \<Rightarrow> SyncRequest \<Rightarrow> 's \<Rightarrow> SyncResult \<times> 's" where
  "syncItem repo rt syncRequest s =
     (case processSingleNote repo rt syncRequest s of
        (Inr result, s') \<Rightarrow> (result, s')
      | (Inl error, s') \<Rightarrow> (failed syncRequest error, s'))"

fun syncLoop ::
  "'s INoteRepository \<Rightarrow> 's Runtime \<Rightarrow> SyncRequest list \<Rightarrow> SyncResult list \<Rightarrow> 's
     \<Rightarrow> SyncResult list \<times> 's" where
  "syncLoop repo rt [] acc s = (acc, s)"
| "syncLoop repo rt (syncRequest # rest) acc s =
     (case syncItem repo rt syncRequest s of
        (result, s') \<Rightarrow> syncLoop repo rt rest (acc @ [result]) s')"

definition syncNotes ::
  "'s INoteRepository \<Rightarrow> 's Runtime \<Rightarrow> SyncRequest list \<Rightarrow> 's \<Rightarrow> SyncResponse \<times> 's" where
  "syncNotes repo rt syncRequests s =
     (case syncLoop repo rt syncRequests [] s of
        (acc, s') \<Rightarrow> (\<lparr> results = acc \<rparr>, s'))"

definition getNotesByWorkspace :: "'s INoteRepository \<Rightarrow> string \<Rightarrow> ('s, Note list) async" where
  "getNotesByWorkspace repo workspaceId s = findByWorkspace repo workspaceId s"

definition getNoteById :: "'s INoteRepository \<Rightarrow> string \<Rightarrow> ('s, Note option) async" where
  "getNoteById repo noteId s = findById repo noteId s"

text \<open>\<^verbatim>\<open>createNote\<close>: the note it builds (its local \<^verbatim>\<open>newNote\<close>).\<close>

definition directlyCreatedNote :: "'s Runtime \<Rightarrow> 's \<Rightarrow> NoteData \<Rightarrow> Note" where
  "directlyCreatedNote rt s noteData =
     NoteModel rt s
       \<lparr> data_id = data_id noteData,
         data_rev = None,
         data_title = data_title noteData,
         data_content = data_content noteData,
         data_key = data_key noteData,
         data_workspace_id = data_workspace_id noteData,
         data_deleted = Some False \<rparr>"

definition createNote :: "'s INoteRepository \<Rightarrow> 's Runtime \<Rightarrow> NoteData \<Rightarrow> ('s, Note) async" where
  "createNote repo rt noteData s = create repo (toJSON (directlyCreatedNote rt s noteData)) s"

text \<open>\<^verbatim>\<open>updateNote\<close>: the local \<^verbatim>\<open>updatedNote\<close> when it is handed to \<^verbatim>\<open>update\<close>.\<close>

definition directlyUpdatedNote :: "string \<Rightarrow> NoteUpdates \<Rightarrow> Note \<Rightarrow> Note" where
  "directlyUpdatedNote nowISO updates existingNote =
     (let n0 = existingNote \<lparr> note_updated_at := nowISO \<rparr>;
          n1 = (case upd_title updates of Some v \<Rightarrow> n0 \<lparr> note_title := v \<rparr> | None \<Rightarrow> n0);
          n2 = (case upd_content updates of Some v \<Rightarrow> n1 \<lparr> note_content := v \<rparr> | None \<Rightarrow> n1);
          n3 = (case upd_key updates of Some v \<Rightarrow> n2 \<lparr> note_key := v \<rparr> | None \<Rightarrow> n2);
          n4 = (case upd_workspace_id updates of
                  Some v \<Rightarrow> n3 \<lparr> note_workspace_id := v \<rparr> | None \<Rightarrow> n3)
      in (case upd_deleted updates of Some v \<Rightarrow> n4 \<lparr> note_deleted := Some v \<rparr> | None \<Rightarrow> n4))"

definition updateNote ::
  "'s INoteRepository \<Rightarrow> 's Runtime \<Rightarrow> string \<Rightarrow> NoteUpdates \<Rightarrow> ('s, Note) async" where
  "updateNote repo rt noteId updates s =
     (case findById repo noteId s of
        (Inl error, s') \<Rightarrow> (Inl error, s')
      | (Inr None, s') \<Rightarrow>
          (Inl (Thrown NotFoundError (''Note with ID '' @ noteId @ '' not found'')), s')
      | (Inr (Some existingNote), s') \<Rightarrow>
          update repo (directlyUpdatedNote (now rt s') updates existingNote) s')"


section \<open>The document store adapter (couch, CouchNoteRepository)\<close>

text \<open>
  What \<^verbatim>\<open>axios\<close> hands to the client for one request: the data of a successful response; a
  response with an error status (\<^verbatim>\<open>error.response\<close>), kept as the status and the text
  \<^verbatim>\<open>`${error.response.data}`\<close>; a request that got no response (\<^verbatim>\<open>error.request\<close>); a request that
  could not be sent, with \<^verbatim>\<open>error.message\<close>.
\<close>

datatype 'a reply = Reply 'a | ErrorStatus nat string | NoReply | RequestFailure string

record CouchResponse =
  cr_ok :: bool
  cr_id :: string
  cr_rev :: string

record Row =
  row_id :: string
  row_key :: string
  row_value_rev :: string
  row_doc :: "Note option"

record CouchAllDocsResponse =
  total_rows :: nat
  offset :: nat
  rows :: "Row list"

text \<open>
  The HTTP server behind \<^verbatim>\<open>axios\<close>, by the type of data the caller casts the response to:
  a document, the answer of \<^verbatim>\<open>_all_docs\<close>, or the answer to a \<^verbatim>\<open>PUT\<close>.
\<close>

record 's Http =
  httpGetDoc :: "string \<Rightarrow> 's \<Rightarrow> Note reply \<times> 's"
  httpGetAllDocs :: "string \<Rightarrow> 's \<Rightarrow> CouchAllDocsResponse reply \<times> 's"
  httpPut :: "string \<Rightarrow> Note \<Rightarrow> 's \<Rightarrow> CouchResponse reply \<times> 's"

record 's CouchDBClient =
  dbName :: string
  client :: "'s Http"

text \<open>\<^verbatim>\<open>`${n}`\<close> for a status code.\<close>

fun decimal :: "nat \<Rightarrow> string" where
  "decimal n =
     (if n < 10 then [''0123456789'' ! n]
      else decimal (n div 10) @ [''0123456789'' ! (n mod 10)])"

declare decimal.simps [simp del]

text \<open>\<^verbatim>\<open>setupInterceptors\<close>: every failure of a request becomes a \<^verbatim>\<open>DatabaseError\<close>.\<close>

fun interceptors :: "'a reply \<Rightarrow> thrown + 'a" where
  "interceptors (Reply d) = Inr d"
| "interceptors (ErrorStatus status d) =
     Inl (Thrown DatabaseError (''CouchDB Error: '' @ decimal status @ '' - '' @ d))"
| "interceptors NoReply = Inl (Thrown DatabaseError ''Failed to connect to CouchDB'')"
| "interceptors (RequestFailure m) = Inl (Thrown DatabaseError (''Request Error: '' @ m))"

definition couchGet :: "'s CouchDBClient \<Rightarrow> string \<Rightarrow> ('s, Note) async" where
  "couchGet c path s =
     (case httpGetDoc (client c) (''/'' @ dbName c @ path) s of (r, s') \<Rightarrow> (interceptors r, s'))"

definition couchGetAllDocs :: "'s CouchDBClient \<Rightarrow> string \<Rightarrow> ('s, CouchAllDocsResponse) async" where
  "couchGetAllDocs c path s =
     (case httpGetAllDocs (client c) (''/'' @ dbName c @ path) s of (r, s') \<Rightarrow> (interceptors r, s'))"

definition couchPut :: "'s CouchDBClient \<Rightarrow> string \<Rightarrow> Note \<Rightarrow> ('s, CouchResponse) async" where
  "couchPut c path d s =
     (case httpPut (client c) (''/'' @ dbName c @ path) d s of (r, s') \<Rightarrow> (interceptors r, s'))"

text \<open>\<^verbatim>\<open>error instanceof DatabaseError && error.message.includes("404")\<close>\<close>

fun isMissing :: "thrown \<Rightarrow> bool" where
  "isMissing (Thrown c m) = (c = DatabaseError \<and> stringIncludes m ''404'')"
| "isMissing (NonError v) = False"

definition CouchNoteRepository_findById ::
  "'s CouchDBClient \<Rightarrow> 's Runtime \<Rightarrow> string \<Rightarrow> ('s, Note option) async" where
  "CouchNoteRepository_findById c rt noteId s =
     (case couchGet c (''/'' @ noteId) s of
        (Inr doc, s') \<Rightarrow> (Inr (Some (toJSON (fromCouchDoc rt s' doc))), s')
      | (Inl error, s') \<Rightarrow> (if isMissing error then (Inr None, s') else (Inl error, s')))"

definition CouchNoteRepository_create :: "'s CouchDBClient \<Rightarrow> Note \<Rightarrow> ('s, Note) async" where
  "CouchNoteRepository_create c note s =
     (case couchPut c (''/'' @ note_id note) note s of
        (Inr result, s') \<Rightarrow> (Inr (note \<lparr> note_rev := Some (cr_rev result) \<rparr>), s')
      | (Inl error, s') \<Rightarrow>
          (Inl (Thrown DatabaseError (''Failed to create note: '' @ toString error)), s'))"

definition CouchNoteRepository_update :: "'s CouchDBClient \<Rightarrow> Note \<Rightarrow> ('s, Note) async" where
  "CouchNoteRepository_update c note s =
     (case couchPut c (''/'' @ note_id note) note s of
        (Inr result, s') \<Rightarrow> (Inr (note \<lparr> note_rev := Some (cr_rev result) \<rparr>), s')
      | (Inl error, s') \<Rightarrow>
          (Inl (Thrown DatabaseError (''Failed to update note: '' @ toString error)), s'))"

text \<open>
  The path of the range query,
  \<^verbatim>\<open>/_all_docs?include_docs=true&startkey="note:"&endkey="note:\ufff0"\<close>, the last character in UTF-8.
\<close>

definition allNotesPath :: string where
  "allNotesPath =
     ''/_all_docs?include_docs=true&startkey='' @ [CHR 0x22] @ ''note:'' @ [CHR 0x22] @
     ''&endkey='' @ [CHR 0x22] @ ''note:'' @ [CHR 0xEF, CHR 0xBF, CHR 0xB0] @ [CHR 0x22]"

definition keepRow :: "string \<Rightarrow> Row \<Rightarrow> bool" where
  "keepRow workspaceId row =
     (case row_doc row of
        None \<Rightarrow> False
      | Some doc \<Rightarrow> note_workspace_id doc = workspaceId \<and> note_deleted doc \<noteq> Some True)"

definition CouchNoteRepository_findByWorkspace ::
  "'s CouchDBClient \<Rightarrow> 's Runtime \<Rightarrow> string \<Rightarrow> ('s, Note list) async" where
  "CouchNoteRepository_findByWorkspace c rt workspaceId s =
     (case couchGetAllDocs c allNotesPath s of
        (Inr result, s') \<Rightarrow>
          (Inr (map (\<lambda>row. toJSON (fromCouchDoc rt s' (the (row_doc row))))
                  (filter (keepRow workspaceId) (rows result))), s')
      | (Inl error, s') \<Rightarrow>
          (Inl (Thrown DatabaseError
                  (''Failed to find notes by workspace: '' @ toString error)), s'))"

definition CouchNoteRepository :: "'s CouchDBClient \<Rightarrow> 's Runtime \<Rightarrow> 's INoteRepository" where
  "CouchNoteRepository c rt =
     \<lparr> findById = CouchNoteRepository_findById c rt,
       create = CouchNoteRepository_create c,
       update = CouchNoteRepository_update c,
       findByWorkspace = CouchNoteRepository_findByWorkspace c rt \<rparr>"


section \<open>The in-memory repository of the unit tests (MockNoteRepository)\<close>

text \<open>
  The state of the test double: its \<^verbatim>\<open>Map\<close> of notes in insertion order and its revision
  counter; beside them the reading of the wall clock, which the double does not touch.
\<close>

record MockNoteRepository =
  notesMap :: "(string \<times> Note) list"
  revCounter :: nat
  wallClock :: string

text \<open>\<^verbatim>\<open>Map.prototype.set\<close>: an existing key keeps its place, a new one goes last.\<close>

fun mapSet :: "string \<Rightarrow> Note \<Rightarrow> (string \<times> Note) list \<Rightarrow> (string \<times> Note) list" where
  "mapSet k v [] = [(k, v)]"
| "mapSet k v ((k', v') # kvs) = (if k' = k then (k, v) # kvs else (k', v') # mapSet k v kvs)"

definition Mock_findById :: "string \<Rightarrow> (MockNoteRepository, Note option) async" where
  "Mock_findById noteId s = (Inr (map_of (notesMap s) noteId), s)"

definition Mock_create :: "Note \<Rightarrow> (MockNoteRepository, Note) async" where
  "Mock_create note s =
     (let created = note \<lparr> note_rev := Some (''1-'' @ decimal (revCounter s)) \<rparr>
      in (Inr created,
          s \<lparr> notesMap := mapSet (note_id note) created (notesMap s),
              revCounter := Suc (revCounter s) \<rparr>))"

definition Mock_update :: "Note \<Rightarrow> (MockNoteRepository, Note) async" where
  "Mock_update note s =
     (case map_of (notesMap s) (note_id note) of
        None \<Rightarrow> (Inl (Thrown Error ''Note not found''), s)
      | Some existingNote \<Rightarrow>
          (let updated = note \<lparr> note_rev := Some (decimal (revCounter s) @ ''-updated'') \<rparr>
           in (Inr updated,
               s \<lparr> notesMap := mapSet (note_id note) updated (notesMap s),
                   revCounter := Suc (revCounter s) \<rparr>)))"

definition Mock_findByWorkspace :: "string \<Rightarrow> (MockNoteRepository, Note list) async" where
  "Mock_findByWorkspace workspaceId s =
     (Inr (filter (\<lambda>note. note_workspace_id note = workspaceId \<and> note_deleted note \<noteq> Some True)
             (map snd (notesMap s))), s)"

definition mockRepository :: "MockNoteRepository INoteRepository" where
  "mockRepository =
     \<lparr> findById = Mock_findById,
       create = Mock_create,
       update = Mock_update,
       findByWorkspace = Mock_findByWorkspace \<rparr>"


section \<open>Example data\<close>

text \<open>
  The time values JavaScript gives the timestamps used in the examples; every other text counts
  as an invalid date there.
\<close>

definition exampleDate :: "string \<Rightarrow> int option" where
  "exampleDate text =
     (if text = ''2025-01-01T10:00:00Z'' then Some 1735725600000
      else if text = ''2025-01-01T14:00:00Z'' then Some 1735740000000
      else if text = ''2025-01-01T16:00:00Z'' then Some 1735747200000
      else if text = ''2025-06-01T00:00:00.000Z'' then Some 1748736000000
      else None)"

definition testRuntime :: "MockNoteRepository Runtime" where
  "testRuntime =
     \<lparr> now = wallClock, generateId = (\<lambda>s. ''note:1748736000000-k3x9q2m1z''),
       dateValue = exampleDate \<rparr>"

definition emptyWorld :: MockNoteRepository where
  "emptyWorld = \<lparr> notesMap = [], revCounter = 1, wallClock = ''2025-06-01T00:00:00.000Z'' \<rparr>"

text \<open>The server side of the fixture \<^verbatim>\<open>conflictScenarios.serverNewer\<close>.\<close>

definition serverNote :: Note where
  "serverNote =
     \<lparr> note_id = ''note:c2'', note_rev = Some ''2-newer'', note_title = ''Server Version'',
       note_content = ''Server has newer timestamp'', note_key = ''conflict/server-newer.md'',
       note_updated_at = ''2025-01-01T14:00:00Z'', note_created_at = ''2025-01-01T10:00:00Z'',
       note_workspace_id = ''w1'', note_deleted = Some False \<rparr>"

definition seededWorld :: MockNoteRepository where
  "seededWorld =
     \<lparr> notesMap = [(''note:c2'', serverNote)], revCounter = 1,
       wallClock = ''2025-06-01T00:00:00.000Z'' \<rparr>"

text \<open>A request that creates a note, and requests that meet \<open>serverNote\<close>.\<close>

definition creation :: SyncRequest where
  "creation =
     \<lparr> req_id = ''note:n1'', req_rev = None, req_title = Some ''T'', req_content = Some ''C'',
       req_key = Some ''a/b.md'', req_updated_at = ''2025-01-01T10:00:00Z'',
       req_workspace_id = Some ''w1'', req_deleted = None \<rparr>"

definition titleOnly :: "string \<Rightarrow> string option \<Rightarrow> SyncRequest" where
  "titleOnly updatedAt token =
     \<lparr> req_id = ''note:c2'', req_rev = token, req_title = Some ''Client Version'',
       req_content = None, req_key = None, req_updated_at = updatedAt,
       req_workspace_id = None, req_deleted = None \<rparr>"

text \<open>
  A store in which the writer loses a race: the first \<^verbatim>\<open>GET\<close> of a document answers \<open>doc\<close>,
  every \<^verbatim>\<open>PUT\<close> is refused with status 409 and the body text \<open>body\<close>, and every later \<^verbatim>\<open>GET\<close>
  gets the reply \<open>later\<close>.  The state counts the requests answered.
\<close>

definition racingStore :: "Note \<Rightarrow> string \<Rightarrow> Note reply \<Rightarrow> nat Http" where
  "racingStore doc body later =
     \<lparr> httpGetDoc = (\<lambda>path n. (if n = 0 then Reply doc else later, Suc n)),
       httpGetAllDocs = (\<lambda>path n. (NoReply, Suc n)),
       httpPut = (\<lambda>path d n. (ErrorStatus 409 body, Suc n)) \<rparr>"

definition racingRuntime :: "nat Runtime" where
  "racingRuntime =
     \<lparr> now = (\<lambda>n. ''2025-06-01T00:00:00.000Z''),
       generateId = (\<lambda>n. ''note:1748736000000-k3x9q2m1z''),
       dateValue = exampleDate \<rparr>"

definition racingRepository :: "Note \<Rightarrow> string \<Rightarrow> Note reply \<Rightarrow> nat INoteRepository" where
  "racingRepository doc body later =
     CouchNoteRepository \<lparr> dbName = ''inkdown'', client = racingStore doc body later \<rparr>
       racingRuntime"


text \<open>A store that answers the range query with the given rows, and nothing else.\<close>

definition listingStore :: "Row list \<Rightarrow> nat Http" where
  "listingStore answer =
     \<lparr> httpGetDoc = (\<lambda>path n. (NoReply, Suc n)),
       httpGetAllDocs = (\<lambda>path n.
         (Reply \<lparr> total_rows = length answer, offset = 0, rows = answer \<rparr>, Suc n)),
       httpPut = (\<lambda>path d n. (NoReply, Suc n)) \<rparr>"

definition listingRepository :: "Row list \<Rightarrow> nat INoteRepository" where
  "listingRepository answer =
     CouchNoteRepository \<lparr> dbName = ''inkdown'', client = listingStore answer \<rparr> racingRuntime"

definition rowOf :: "Note \<Rightarrow> Row" where
  "rowOf doc =
     \<lparr> row_id = note_id doc, row_key = note_id doc,
       row_value_rev = (case note_rev doc of Some r \<Rightarrow> r | None \<Rightarrow> []),
       row_doc = Some doc \<rparr>"

text \<open>
  Four rows: a note of workspace \<open>w1\<close>, the same note soft-deleted, a note of workspace \<open>w2\<close>
  written without the \<open>deleted\<close> field, and a row without a document.
\<close>

definition exampleRows :: "Row list" where
  "exampleRows =
     [rowOf serverNote,
      rowOf (serverNote \<lparr> note_id := ''note:c3'', note_deleted := Some True \<rparr>),
      rowOf (serverNote \<lparr> note_id := ''note:c4'', note_workspace_id := ''w2'',
                            note_deleted := None \<rparr>),
      \<lparr> row_id = ''note:c5'', row_key = ''note:c5'', row_value_rev = ''1-a'', row_doc = None \<rparr>]"

text \<open>The update of the unit test \<^verbatim>\<open>should update only provided fields\<close>.\<close>

definition onlyTitle :: NoteUpdates where
  "onlyTitle = \<lparr> upd_title = Some ''X'', upd_content = None, upd_key = None,
       upd_workspace_id = None, upd_deleted = None \<rparr>"

text \<open>What another writer has stored meanwhile, and a creation with an empty title.\<close>

definition otherWriterNote :: Note where
  "otherWriterNote =
     serverNote \<lparr> note_rev := Some ''3-other'', note_title := ''Other Writer'',
                  note_updated_at := ''2025-01-01T16:00:00Z'' \<rparr>"

definition untitledCreation :: SyncRequest where
  "untitledCreation = creation \<lparr> req_title := Some [] \<rparr>"

text \<open>The note the test double holds after \<open>creation\<close> was synced into the empty world.\<close>

definition createdBySync :: Note where
  "createdBySync =
     \<lparr> note_id = ''note:n1'', note_rev = Some ''1-1'', note_title = ''T'', note_content = ''C'',
       note_key = ''a/b.md'', note_updated_at = ''2025-01-01T10:00:00Z'',
       note_created_at = ''2025-06-01T00:00:00.000Z'', note_workspace_id = ''w1'',
       note_deleted = Some False \<rparr>"

text \<open>The body of a direct creation, as in the fixture \<^verbatim>\<open>validNoteCreate\<close>.\<close>

definition validNoteCreate :: NoteData where
  "validNoteCreate =
     \<lparr> data_id = None, data_rev = None, data_title = ''Test Note'', data_content = ''C'',
       data_key = ''test/sample.md'', data_workspace_id = ''w1'', data_deleted = None \<rparr>"

section \<open>Predicates used in the statements\<close>

text \<open>
  A repository keeps ids, on the states that satisfy \<open>ok\<close>, when a document it finds carries the
  id it was asked for, a document it returns from a write carries the id of the note written, and
  every call leads from a state that satisfies \<open>ok\<close> to one that does.
\<close>

definition keepsIds :: "('s \<Rightarrow> bool) \<Rightarrow> 's INoteRepository \<Rightarrow> bool" where
  "keepsIds ok repo \<longleftrightarrow>
     (\<forall>noteId s r s'. ok s \<and> findById repo noteId s = (r, s') \<longrightarrow>
        ok s' \<and> (\<forall>n. r = Inr (Some n) \<longrightarrow> note_id n = noteId)) \<and>
     (\<forall>note s r s'. ok s \<and> create repo note s = (r, s') \<longrightarrow>
        ok s' \<and> (\<forall>n. r = Inr n \<longrightarrow> note_id n = note_id note)) \<and>
     (\<forall>note s r s'. ok s \<and> update repo note s = (r, s') \<longrightarrow>
        ok s' \<and> (\<forall>n. r = Inr n \<longrightarrow> note_id n = note_id note))"

text \<open>The test double files every note under its own id.\<close>

definition keyedById :: "MockNoteRepository \<Rightarrow> bool" where
  "keyedById s \<longleftrightarrow> (\<forall>(k, n) \<in> set (notesMap s). note_id n = k)"

text \<open>
  The condition under which \<open>handleExistingNote\<close> goes on to \<open>updateNoteFromSync\<close>: the first,
  the second or the last of its four branches.
\<close>

definition acceptsAsUpdate :: "'s Runtime \<Rightarrow> SyncRequest \<Rightarrow> Note \<Rightarrow> bool" where
  "acceptsAsUpdate rt syncRequest existingNote \<longleftrightarrow>
     (truthy (req_rev syncRequest) \<and> req_rev syncRequest = note_rev existingNote) \<or>
     laterThan (dateValue rt (req_updated_at syncRequest))
               (dateValue rt (note_updated_at existingNote)) \<or>
     \<not> laterThan (dateValue rt (note_updated_at existingNote))
                 (dateValue rt (req_updated_at syncRequest))"

text \<open>
  \<open>updated_at\<close> is not earlier than \<open>created_at\<close>: both are dates, and the time value of the
  first is at least that of the second.
\<close>

definition updatedNotBeforeCreated :: "'s Runtime \<Rightarrow> Note \<Rightarrow> bool" where
  "updatedNotBeforeCreated rt note =
     (case (dateValue rt (note_updated_at note), dateValue rt (note_created_at note)) of
        (Some u, Some c) \<Rightarrow> c \<le> u
      | _ \<Rightarrow> False)"


section \<open>Properties\<close>

lemma toJSON_same [simp]: "toJSON n = n"
  by (simp add: toJSON_def)

lemma syncLoop_acc:
  "syncLoop repo rt reqs acc s =
     (acc @ fst (syncLoop repo rt reqs [] s), snd (syncLoop repo rt reqs [] s))"
proof (induction reqs arbitrary: acc s)
  case Nil
  show ?case by simp
next
  case (Cons r reqs)
  obtain res s1 where step: "syncItem repo rt r s = (res, s1)"
    by (cases "syncItem repo rt r s")
  have a: "syncLoop repo rt reqs (acc @ [res]) s1 =
      ((acc @ [res]) @ fst (syncLoop repo rt reqs [] s1), snd (syncLoop repo rt reqs [] s1))"
    by (rule Cons.IH)
  have b: "syncLoop repo rt reqs [res] s1 =
      ([res] @ fst (syncLoop repo rt reqs [] s1), snd (syncLoop repo rt reqs [] s1))"
    by (rule Cons.IH)
  show ?case by (simp add: step a b)
qed

lemma syncLoop_Cons:
  "syncLoop repo rt (r # reqs) [] s =
     (fst (syncItem repo rt r s) # fst (syncLoop repo rt reqs [] (snd (syncItem repo rt r s))),
      snd (syncLoop repo rt reqs [] (snd (syncItem repo rt r s))))"
proof -
  obtain res s1 where step: "syncItem repo rt r s = (res, s1)"
    by (cases "syncItem repo rt r s")
  show ?thesis
    using syncLoop_acc [of repo rt reqs "[res]" s1] by (simp add: step)
qed

lemma syncLoop_append:
  "syncLoop repo rt (xs @ ys) [] s =
     (fst (syncLoop repo rt xs [] s) @ fst (syncLoop repo rt ys [] (snd (syncLoop repo rt xs [] s))),
      snd (syncLoop repo rt ys [] (snd (syncLoop repo rt xs [] s))))"
proof (induction xs arbitrary: s)
  case Nil
  show ?case by simp
next
  case (Cons x xs)
  show ?case
    by (simp only: append_Cons syncLoop_Cons [of repo rt x] Cons.IH fst_conv snd_conv)
qed

lemma syncLoop_length: "length (fst (syncLoop repo rt reqs [] s)) = length reqs"
proof (induction reqs arbitrary: s)
  case Nil
  show ?case by simp
next
  case (Cons r reqs)
  show ?case by (simp only: syncLoop_Cons fst_conv list.size Cons.IH)
qed

lemma syncNotes_results: "results (fst (syncNotes repo rt reqs s)) = fst (syncLoop repo rt reqs [] s)"
  by (simp add: syncNotes_def split: prod.splits)

lemma syncNotes_state: "snd (syncNotes repo rt reqs s) = snd (syncLoop repo rt reqs [] s)"
  by (simp add: syncNotes_def split: prod.splits)

lemma syncLoop_nth:
  "i < length reqs \<Longrightarrow>
     fst (syncLoop repo rt reqs [] s) ! i =
       fst (syncItem repo rt (reqs ! i) (snd (syncLoop repo rt (take i reqs) [] s)))"
proof -
  assume i: "i < length reqs"
  have split: "reqs = take i reqs @ (reqs ! i) # drop (Suc i) reqs"
    using i by (simp add: id_take_nth_drop)
  have len: "length (fst (syncLoop repo rt (take i reqs) [] s)) = i"
    using i by (simp add: syncLoop_length)
  have "fst (syncLoop repo rt reqs [] s) =
      fst (syncLoop repo rt (take i reqs) [] s) @
      fst (syncLoop repo rt ((reqs ! i) # drop (Suc i) reqs) [] (snd (syncLoop repo rt (take i reqs) [] s)))"
    using syncLoop_append [of repo rt "take i reqs" "(reqs ! i) # drop (Suc i) reqs" s] split
    by (simp del: syncLoop.simps)
  then show ?thesis
    using len by (simp add: nth_append syncLoop_Cons del: syncLoop.simps)
qed

text \<open>
  Claim C2.  For every sequence of sync items, \<open>syncNotes\<close> returns a report with exactly one
  result per item, and the result at each position is the one produced for the item at that
  position, in the state the items before it have left, whichever of the items fail.  The empty
  sequence gives the report without results; \<open>syncNotes\<close> has no error outcome.
\<close>

theorem syncNotes_one_result_per_item:
  "length (results (fst (syncNotes repo rt syncRequests s))) = length syncRequests \<and>
   (\<forall>i < length syncRequests.
      results (fst (syncNotes repo rt syncRequests s)) ! i =
        fst (syncItem repo rt (syncRequests ! i) (snd (syncNotes repo rt (take i syncRequests) s)))) \<and>
   syncNotes repo rt [] s = (\<lparr> results = [] \<rparr>, s)"
  by (simp add: syncNotes_results syncNotes_state syncLoop_length syncLoop_nth)
     (simp add: syncNotes_def)


theorem syncNotes_one_result_per_item_witness:
  "length (results (fst (syncNotes mockRepository testRuntime
       [creation, titleOnly [] None] emptyWorld))) = 2 \<and>
   results (fst (syncNotes mockRepository testRuntime [creation, titleOnly [] None] emptyWorld)) ! 1 =
     fst (syncItem mockRepository testRuntime (titleOnly [] None)
            (snd (syncNotes mockRepository testRuntime [creation] emptyWorld)))"
  using syncNotes_one_result_per_item
          [of mockRepository testRuntime "[creation, titleOnly [] None]" emptyWorld]
  by simp

lemma res_id_simps [simp]:
  "res_id (saved n) = note_id n" "res_id (conflicting r d) = req_id r" "res_id (failed r e) = req_id r"
  by (simp_all add: saved_def conflicting_def failed_def)

lemma note_id_updatedNote [simp]: "note_id (updatedNote r ex) = note_id ex"
  by (simp add: updatedNote_def Let_def split: option.splits)

lemma note_id_newNote: "req_id r \<noteq> [] \<Longrightarrow> note_id (newNote rt s r) = req_id r"
  by (simp add: newNote_def NoteModel_def)

lemma updateNoteFromSync_id:
  assumes k: "keepsIds ok repo" and i: "ok s" and ex: "note_id ex = req_id r"
  shows "ok (snd (updateNoteFromSync repo r ex s)) \<and>
         (\<forall>res. fst (updateNoteFromSync repo r ex s) = Inr res \<longrightarrow> res_id res = req_id r)"
proof -
  obtain o1 s1 where u: "update repo (updatedNote r ex) s = (o1, s1)"
    by (cases "update repo (updatedNote r ex) s")
  have u1: "ok s1" and u2: "\<And>n. o1 = Inr n \<Longrightarrow> note_id n = req_id r"
    using k i u ex unfolding keepsIds_def by (metis note_id_updatedNote)+
  obtain o2 s2 where f: "findById repo (req_id r) s1 = (o2, s2)"
    by (cases "findById repo (req_id r) s1")
  have f1: "ok s2"
    using k u1 f unfolding keepsIds_def by metis
  show ?thesis
    using u u1 u2 f f1
    by (cases o1; cases o2) (auto simp: updateNoteFromSync_def)
qed

lemma processSingleNote_id:
  assumes k: "keepsIds ok repo" and i: "ok s"
  shows "ok (snd (processSingleNote repo rt r s)) \<and>
         (\<forall>res. fst (processSingleNote repo rt r s) = Inr res \<longrightarrow> res_id res = req_id r)"
proof (cases "req_id r = [] \<or> req_updated_at r = []")
  case True
  then show ?thesis using i by (auto simp: processSingleNote_def)
next
  case False
  obtain o1 s1 where f: "findById repo (req_id r) s = (o1, s1)"
    by (cases "findById repo (req_id r) s")
  have f1: "ok s1" and f2: "\<And>n. o1 = Inr (Some n) \<Longrightarrow> note_id n = req_id r"
    using k i f unfolding keepsIds_def by metis+
  show ?thesis
  proof (cases o1)
    case (Inl e)
    then show ?thesis using False f f1 by (simp add: processSingleNote_def)
  next
    case (Inr found)
    show ?thesis
    proof (cases found)
      case None
      obtain o2 s2 where c: "create repo (newNote rt s1 r) s1 = (o2, s2)"
        by (cases "create repo (newNote rt s1 r) s1")
      have c1: "ok s2" and c2: "\<And>n. o2 = Inr n \<Longrightarrow> note_id n = req_id r"
        using k f1 c False note_id_newNote [of r rt s1] unfolding keepsIds_def by metis+
      show ?thesis
        using False f Inr None c c1 c2 f1
        by (cases o2) (auto simp: processSingleNote_def createNewNote_def)
    next
      case (Some ex)
      have e: "note_id ex = req_id r" using f2 Inr Some by simp
      have h: "ok (snd (handleExistingNote repo rt r ex s1)) \<and>
         (\<forall>res. fst (handleExistingNote repo rt r ex s1) = Inr res \<longrightarrow> res_id res = req_id r)"
        using updateNoteFromSync_id [OF k f1 e] f1
        by (simp add: handleExistingNote_def Let_def)
      show ?thesis
        using False f Inr Some h by (simp add: processSingleNote_def)
    qed
  qed
qed

lemma syncItem_id:
  assumes k: "keepsIds ok repo" and i: "ok s"
  shows "ok (snd (syncItem repo rt r s)) \<and> res_id (fst (syncItem repo rt r s)) = req_id r"
proof -
  obtain o1 s1 where p: "processSingleNote repo rt r s = (o1, s1)"
    by (cases "processSingleNote repo rt r s")
  show ?thesis
    using processSingleNote_id [OF k i, of rt r] p
    by (cases o1) (simp_all add: syncItem_def)
qed

lemma syncLoop_ids:
  assumes k: "keepsIds ok repo"
  shows "ok s \<Longrightarrow> map res_id (fst (syncLoop repo rt reqs [] s)) = map req_id reqs"
proof (induction reqs arbitrary: s)
  case Nil
  show ?case by simp
next
  case (Cons r reqs)
  have a: "ok (snd (syncItem repo rt r s))" and b: "res_id (fst (syncItem repo rt r s)) = req_id r"
    using syncItem_id [OF k Cons.prems] by simp_all
  show ?case
    using Cons.IH [OF a] b by (simp only: syncLoop_Cons fst_conv list.map)
qed

text \<open>
  Claim C10.  With a repository that keeps ids, the \<open>_id\<close> of the result at each position is the
  \<open>_id\<close> of the item at that position, on every outcome: created, updated, conflict reported, or
  failed.
\<close>

theorem syncNotes_result_ids:
  "keepsIds ok repo \<Longrightarrow> ok s \<Longrightarrow>
     map res_id (results (fst (syncNotes repo rt syncRequests s))) = map req_id syncRequests"
  by (simp add: syncNotes_results syncLoop_ids)

lemma set_mapSet: "set (mapSet k v kvs) \<subseteq> insert (k, v) (set kvs)"
  by (induction kvs) (auto split: if_splits)

lemma keyedById_mapSet:
  assumes "keyedById s" and "note_id v = k"
  shows "keyedById (s \<lparr> notesMap := mapSet k v (notesMap s), revCounter := c \<rparr>)"
  using assms set_mapSet [of k v "notesMap s"] unfolding keyedById_def by auto

lemma mock_keepsIds: "keepsIds keyedById mockRepository"
proof -
  have f: "\<And>noteId s n. keyedById s \<Longrightarrow> map_of (notesMap s) noteId = Some n \<Longrightarrow> note_id n = noteId"
    unfolding keyedById_def by (auto dest: map_of_SomeD)
  show ?thesis
    unfolding keepsIds_def mockRepository_def
    by (auto simp: Mock_findById_def Mock_create_def Mock_update_def Let_def f
             intro!: keyedById_mapSet split: option.splits)
qed

theorem syncNotes_result_ids_witness:
  "map res_id (results (fst (syncNotes mockRepository testRuntime
       [creation, titleOnly ''2025-01-01T10:00:00Z'' None, titleOnly [] None] seededWorld))) =
     [''note:n1'', ''note:c2'', ''note:c2'']"
proof -
  have "keyedById seededWorld"
    by (simp add: keyedById_def seededWorld_def serverNote_def)
  then show ?thesis
    using syncNotes_result_ids [OF mock_keepsIds, of seededWorld testRuntime]
    by (simp add: creation_def titleOnly_def)
qed

lemma processSingleNote_missing:
  "req_id r = [] \<or> req_updated_at r = [] \<Longrightarrow>
     processSingleNote repo rt r s =
       (Inl (Thrown ValidationError ''Note ID and updated_at are required''), s)"
  by (simp add: processSingleNote_def)

lemma syncNotes_append:
  "syncNotes repo rt (xs @ ys) s =
     (\<lparr> results = results (fst (syncNotes repo rt xs s)) @
                    results (fst (syncNotes repo rt ys (snd (syncNotes repo rt xs s)))) \<rparr>,
      snd (syncNotes repo rt ys (snd (syncNotes repo rt xs s))))"
  by (simp add: syncNotes_def syncLoop_append split: prod.splits)

lemma syncNotes_Cons:
  "syncNotes repo rt (r # reqs) s =
     (\<lparr> results = fst (syncItem repo rt r s) #
                    results (fst (syncNotes repo rt reqs (snd (syncItem repo rt r s)))) \<rparr>,
      snd (syncNotes repo rt reqs (snd (syncItem repo rt r s))))"
  by (simp add: syncNotes_def syncLoop_Cons split: prod.splits del: syncLoop.simps)

text \<open>
  Claim C6.  An item whose \<open>_id\<close> or \<open>updated_at\<close> is missing (both fields have the type
  \<^verbatim>\<open>string\<close>, whose one value the guard \<^verbatim>\<open>!_id || !updated_at\<close> refuses is the empty text) gets the
  failed result with the error \<^verbatim>\<open>Note ID and updated_at are required\<close>.  The state of the world is
  the one before the item and the result is the same for every repository: nothing was asked of
  the store.  In a batch, the results of the items before and after it, and the final state, are
  those of the batch without the item.
\<close>

theorem missing_id_or_timestamp_fails_item_only:
  "req_id syncRequest = [] \<or> req_updated_at syncRequest = [] \<Longrightarrow>
     syncItem repo rt syncRequest s =
       (\<lparr> res_id = req_id syncRequest, res_ok = False, res_rev = None, res_conflict = None,
          res_server_doc = None,
          res_error = Some ''Note ID and updated_at are required'' \<rparr>, s) \<and>
     syncNotes repo rt (before @ syncRequest # after) s =
       (\<lparr> results =
            results (fst (syncNotes repo rt before s)) @
            [\<lparr> res_id = req_id syncRequest, res_ok = False, res_rev = None,
               res_conflict = None, res_server_doc = None,
               res_error = Some ''Note ID and updated_at are required'' \<rparr>] @
            results (fst (syncNotes repo rt after (snd (syncNotes repo rt before s)))) \<rparr>,
        snd (syncNotes repo rt after (snd (syncNotes repo rt before s)))) \<and>
     syncNotes repo rt (before @ after) s =
       (\<lparr> results =
            results (fst (syncNotes repo rt before s)) @
            results (fst (syncNotes repo rt after (snd (syncNotes repo rt before s)))) \<rparr>,
        snd (syncNotes repo rt after (snd (syncNotes repo rt before s))))"
proof -
  assume missing: "req_id syncRequest = [] \<or> req_updated_at syncRequest = []"
  have item: "syncItem repo rt syncRequest s' =
           (\<lparr> res_id = req_id syncRequest, res_ok = False, res_rev = None, res_conflict = None,
              res_server_doc = None,
              res_error = Some ''Note ID and updated_at are required'' \<rparr>, s')" for s'
    using missing by (simp add: syncItem_def processSingleNote_missing failed_def)
  have batch: "syncNotes repo rt (before @ syncRequest # after) s =
           (\<lparr> results =
                results (fst (syncNotes repo rt before s)) @
                [\<lparr> res_id = req_id syncRequest, res_ok = False, res_rev = None,
                   res_conflict = None, res_server_doc = None,
                   res_error = Some ''Note ID and updated_at are required'' \<rparr>] @
                results (fst (syncNotes repo rt after (snd (syncNotes repo rt before s)))) \<rparr>,
            snd (syncNotes repo rt after (snd (syncNotes repo rt before s))))"
    by (simp add: syncNotes_append [of repo rt before "syncRequest # after"] syncNotes_Cons item)
  show ?thesis
    using item [of s] batch syncNotes_append [of repo rt before after s] by simp
qed

theorem missing_id_or_timestamp_fails_item_only_witness:
  "syncNotes mockRepository testRuntime [creation, titleOnly [] None, creation] emptyWorld =
     (\<lparr> results =
          results (fst (syncNotes mockRepository testRuntime [creation] emptyWorld)) @
          [\<lparr> res_id = ''note:c2'', res_ok = False, res_rev = None, res_conflict = None,
             res_server_doc = None,
             res_error = Some ''Note ID and updated_at are required'' \<rparr>] @
          results (fst (syncNotes mockRepository testRuntime [creation]
                     (snd (syncNotes mockRepository testRuntime [creation] emptyWorld)))) \<rparr>,
      snd (syncNotes mockRepository testRuntime [creation]
             (snd (syncNotes mockRepository testRuntime [creation] emptyWorld))))"
proof -
  have missing: "req_id (titleOnly [] None) = [] \<or> req_updated_at (titleOnly [] None) = []"
    by (simp add: titleOnly_def)
  have id: "req_id (titleOnly [] None) = ''note:c2''"
    by (simp add: titleOnly_def)
  show ?thesis
    using missing_id_or_timestamp_fails_item_only
            [OF missing, of mockRepository testRuntime emptyWorld "[creation]" "[creation]"]
    by (simp add: id)
qed

lemma handleExistingNote_cases:
  "handleExistingNote repo rt r ex s =
     (if acceptsAsUpdate rt r ex then updateNoteFromSync repo r ex s
      else (Inr (conflicting r (Some (serverDoc ex))), s))"
  by (auto simp: handleExistingNote_def acceptsAsUpdate_def Let_def)


lemma handleExistingNote_invalid_date:
  "dateValue rt (req_updated_at r) = None \<or> dateValue rt (note_updated_at ex) = None \<Longrightarrow>
     handleExistingNote repo rt r ex s = updateNoteFromSync repo r ex s"
  by (auto simp: handleExistingNote_def Let_def)


lemma updatedNote_fields:
  "note_id (updatedNote r ex) = note_id ex"
  "note_rev (updatedNote r ex) = note_rev ex"
  "note_created_at (updatedNote r ex) = note_created_at ex"
  "note_updated_at (updatedNote r ex) = req_updated_at r"
  "note_title (updatedNote r ex) = (case req_title r of Some v \<Rightarrow> v | None \<Rightarrow> note_title ex)"
  "note_content (updatedNote r ex) = (case req_content r of Some v \<Rightarrow> v | None \<Rightarrow> note_content ex)"
  "note_key (updatedNote r ex) = (case req_key r of Some v \<Rightarrow> v | None \<Rightarrow> note_key ex)"
  "note_workspace_id (updatedNote r ex) =
     (case req_workspace_id r of Some v \<Rightarrow> v | None \<Rightarrow> note_workspace_id ex)"
  "note_deleted (updatedNote r ex) = (case req_deleted r of Some v \<Rightarrow> Some v | None \<Rightarrow> note_deleted ex)"
  by (simp_all add: updatedNote_def Let_def split: option.splits)

lemma updateNoteFromSync_saved:
  "update repo (updatedNote r ex) s = (Inr savedNote, s') \<Longrightarrow>
     updateNoteFromSync repo r ex s = (Inr (saved savedNote), s')"
  by (simp add: updateNoteFromSync_def)

text \<open>
  Claim C7.  On the path that accepts an item as an update, the note handed to the store takes
  \<open>title\<close>, \<open>content\<close>, \<open>key\<close>, \<open>workspace_id\<close> and \<open>deleted\<close> from the item where the item
  has them and from the existing note where it has not; \<open>_id\<close>, \<open>_rev\<close> and \<open>created_at\<close> are
  those of the existing note, so that the write presents the existing revision; \<open>updated_at\<close>
  is the timestamp of the item.  It is this note that is written: whenever the store accepts the
  write of it, the item succeeds with the id and the revision the store returned.
\<close>

theorem sync_update_replaces_present_fields_only:
  "note_title (updatedNote syncRequest existingNote) =
     (case req_title syncRequest of Some v \<Rightarrow> v | None \<Rightarrow> note_title existingNote) \<and>
   note_content (updatedNote syncRequest existingNote) =
     (case req_content syncRequest of Some v \<Rightarrow> v | None \<Rightarrow> note_content existingNote) \<and>
   note_key (updatedNote syncRequest existingNote) =
     (case req_key syncRequest of Some v \<Rightarrow> v | None \<Rightarrow> note_key existingNote) \<and>
   note_workspace_id (updatedNote syncRequest existingNote) =
     (case req_workspace_id syncRequest of Some v \<Rightarrow> v | None \<Rightarrow> note_workspace_id existingNote) \<and>
   note_deleted (updatedNote syncRequest existingNote) =
     (case req_deleted syncRequest of Some v \<Rightarrow> Some v | None \<Rightarrow> note_deleted existingNote) \<and>
   note_id (updatedNote syncRequest existingNote) = note_id existingNote \<and>
   note_rev (updatedNote syncRequest existingNote) = note_rev existingNote \<and>
   note_created_at (updatedNote syncRequest existingNote) = note_created_at existingNote \<and>
   note_updated_at (updatedNote syncRequest existingNote) = req_updated_at syncRequest \<and>
   (acceptsAsUpdate rt syncRequest existingNote \<longrightarrow>
      handleExistingNote repo rt syncRequest existingNote s =
        updateNoteFromSync repo syncRequest existingNote s) \<and>
   (\<forall>savedNote s'.
      update repo (updatedNote syncRequest existingNote) s = (Inr savedNote, s') \<longrightarrow>
      updateNoteFromSync repo syncRequest existingNote s =
        (Inr \<lparr> res_id = note_id savedNote, res_ok = True, res_rev = note_rev savedNote,
               res_conflict = Some False, res_server_doc = None, res_error = None \<rparr>, s'))"
  using updateNoteFromSync_saved [of repo syncRequest existingNote s]
  by (simp add: updatedNote_fields handleExistingNote_cases saved_def)

theorem sync_update_replaces_present_fields_only_witness:
  "acceptsAsUpdate testRuntime (titleOnly ''2025-01-01T16:00:00Z'' None) serverNote \<and>
   update mockRepository (updatedNote (titleOnly ''2025-01-01T16:00:00Z'' None) serverNote)
       seededWorld =
     (Inr (serverNote \<lparr> note_rev := Some ''1-updated'', note_title := ''Client Version'',
                          note_updated_at := ''2025-01-01T16:00:00Z'' \<rparr>),
      seededWorld
        \<lparr> notesMap :=
            [(''note:c2'',
              serverNote \<lparr> note_rev := Some ''1-updated'', note_title := ''Client Version'',
                           note_updated_at := ''2025-01-01T16:00:00Z'' \<rparr>)],
          revCounter := 2 \<rparr>) \<and>
   handleExistingNote mockRepository testRuntime (titleOnly ''2025-01-01T16:00:00Z'' None)
       serverNote seededWorld =
     (Inr \<lparr> res_id = ''note:c2'', res_ok = True, res_rev = Some ''1-updated'',
            res_conflict = Some False, res_server_doc = None, res_error = None \<rparr>,
      seededWorld
        \<lparr> notesMap :=
            [(''note:c2'',
              serverNote \<lparr> note_rev := Some ''1-updated'', note_title := ''Client Version'',
                           note_updated_at := ''2025-01-01T16:00:00Z'' \<rparr>)],
          revCounter := 2 \<rparr>)"
proof -
  let ?r = "titleOnly ''2025-01-01T16:00:00Z'' None"
  have a: "acceptsAsUpdate testRuntime ?r serverNote"
    by (simp add: acceptsAsUpdate_def titleOnly_def serverNote_def testRuntime_def exampleDate_def)
  have u: "update mockRepository (updatedNote ?r serverNote) seededWorld =
     (Inr (serverNote \<lparr> note_rev := Some ''1-updated'', note_title := ''Client Version'',
                          note_updated_at := ''2025-01-01T16:00:00Z'' \<rparr>),
      seededWorld
        \<lparr> notesMap :=
            [(''note:c2'',
              serverNote \<lparr> note_rev := Some ''1-updated'', note_title := ''Client Version'',
                           note_updated_at := ''2025-01-01T16:00:00Z'' \<rparr>)],
          revCounter := 2 \<rparr>)"
    by (simp add: mockRepository_def Mock_update_def updatedNote_def titleOnly_def Let_def
          seededWorld_def serverNote_def decimal.simps)
  show ?thesis
    using a u
      sync_update_replaces_present_fields_only
        [where syncRequest = ?r and existingNote = serverNote and rt = testRuntime
           and repo = mockRepository and s = seededWorld]
    by (simp add: serverNote_def)
qed

lemma directlyUpdatedNote_fields:
  "note_id (directlyUpdatedNote t u ex) = note_id ex"
  "note_rev (directlyUpdatedNote t u ex) = note_rev ex"
  "note_created_at (directlyUpdatedNote t u ex) = note_created_at ex"
  "note_updated_at (directlyUpdatedNote t u ex) = t"
  "note_title (directlyUpdatedNote t u ex) = (case upd_title u of Some v \<Rightarrow> v | None \<Rightarrow> note_title ex)"
  "note_content (directlyUpdatedNote t u ex) = (case upd_content u of Some v \<Rightarrow> v | None \<Rightarrow> note_content ex)"
  "note_key (directlyUpdatedNote t u ex) = (case upd_key u of Some v \<Rightarrow> v | None \<Rightarrow> note_key ex)"
  "note_workspace_id (directlyUpdatedNote t u ex) =
     (case upd_workspace_id u of Some v \<Rightarrow> v | None \<Rightarrow> note_workspace_id ex)"
  "note_deleted (directlyUpdatedNote t u ex) = (case upd_deleted u of Some v \<Rightarrow> Some v | None \<Rightarrow> note_deleted ex)"
  by (simp_all add: directlyUpdatedNote_def Let_def split: option.splits)

text \<open>
  Claim C9.  \<open>updateNote\<close> fails with the not-found error when no note is found under the id.
  When one is found, the outcome is that of writing the merged note to the store: the supplied
  fields among \<open>title\<close>, \<open>content\<close>, \<open>key\<close>, \<open>workspace_id\<close> and \<open>deleted\<close> replace those of
  the existing note, the others keep their values, as do \<open>_id\<close>, \<open>_rev\<close> and \<open>created_at\<close>, and
  \<open>updated_at\<close> is the reading of the server clock.
\<close>

theorem updateNote_replaces_supplied_fields_only:
  "(findById repo noteId s = (Inr None, s1) \<longrightarrow>
      updateNote repo rt noteId updates s =
        (Inl (Thrown NotFoundError (''Note with ID '' @ noteId @ '' not found'')), s1)) \<and>
   (findById repo noteId s = (Inr (Some existingNote), s1) \<longrightarrow>
      updateNote repo rt noteId updates s =
        update repo (directlyUpdatedNote (now rt s1) updates existingNote) s1) \<and>
   note_title (directlyUpdatedNote nowISO updates existingNote) =
     (case upd_title updates of Some v \<Rightarrow> v | None \<Rightarrow> note_title existingNote) \<and>
   note_content (directlyUpdatedNote nowISO updates existingNote) =
     (case upd_content updates of Some v \<Rightarrow> v | None \<Rightarrow> note_content existingNote) \<and>
   note_key (directlyUpdatedNote nowISO updates existingNote) =
     (case upd_key updates of Some v \<Rightarrow> v | None \<Rightarrow> note_key existingNote) \<and>
   note_workspace_id (directlyUpdatedNote nowISO updates existingNote) =
     (case upd_workspace_id updates of Some v \<Rightarrow> v | None \<Rightarrow> note_workspace_id existingNote) \<and>
   note_deleted (directlyUpdatedNote nowISO updates existingNote) =
     (case upd_deleted updates of Some v \<Rightarrow> Some v | None \<Rightarrow> note_deleted existingNote) \<and>
   note_id (directlyUpdatedNote nowISO updates existingNote) = note_id existingNote \<and>
   note_rev (directlyUpdatedNote nowISO updates existingNote) = note_rev existingNote \<and>
   note_created_at (directlyUpdatedNote nowISO updates existingNote) = note_created_at existingNote \<and>
   note_updated_at (directlyUpdatedNote nowISO updates existingNote) = nowISO"
  by (simp add: directlyUpdatedNote_fields updateNote_def)

theorem updateNote_replaces_supplied_fields_only_witness:
  "updateNote mockRepository testRuntime ''note:c2'' onlyTitle emptyWorld =
     (Inl (Thrown NotFoundError ''Note with ID note:c2 not found''), emptyWorld) \<and>
   updateNote mockRepository testRuntime ''note:c2'' onlyTitle seededWorld =
     (Inr (serverNote \<lparr> note_rev := Some ''1-updated'', note_title := ''X'',
                          note_updated_at := ''2025-06-01T00:00:00.000Z'' \<rparr>),
      seededWorld
        \<lparr> notesMap :=
            [(''note:c2'',
              serverNote \<lparr> note_rev := Some ''1-updated'', note_title := ''X'',
                           note_updated_at := ''2025-06-01T00:00:00.000Z'' \<rparr>)],
          revCounter := 2 \<rparr>)"
proof -
  have f0: "findById mockRepository ''note:c2'' emptyWorld = (Inr None, emptyWorld)"
    by (simp add: mockRepository_def Mock_findById_def emptyWorld_def)
  have f1: "findById mockRepository ''note:c2'' seededWorld = (Inr (Some serverNote), seededWorld)"
    by (simp add: mockRepository_def Mock_findById_def seededWorld_def)
  have u: "update mockRepository
       (directlyUpdatedNote (now testRuntime seededWorld) onlyTitle serverNote) seededWorld =
     (Inr (serverNote \<lparr> note_rev := Some ''1-updated'', note_title := ''X'',
                          note_updated_at := ''2025-06-01T00:00:00.000Z'' \<rparr>),
      seededWorld
        \<lparr> notesMap :=
            [(''note:c2'',
              serverNote \<lparr> note_rev := Some ''1-updated'', note_title := ''X'',
                           note_updated_at := ''2025-06-01T00:00:00.000Z'' \<rparr>)],
          revCounter := 2 \<rparr>)"
    by (simp add: mockRepository_def Mock_update_def directlyUpdatedNote_def onlyTitle_def Let_def
          seededWorld_def serverNote_def decimal.simps testRuntime_def)
  show ?thesis
    using f0 f1 u
      updateNote_replaces_supplied_fields_only
        [where repo = mockRepository and noteId = "''note:c2''" and s = emptyWorld
           and ?s1.0 = emptyWorld and rt = testRuntime and updates = onlyTitle]
      updateNote_replaces_supplied_fields_only
        [where repo = mockRepository and noteId = "''note:c2''" and s = seededWorld
           and ?s1.0 = seededWorld and rt = testRuntime and updates = onlyTitle
           and existingNote = serverNote]
    by simp
qed

lemma fromCouchDoc_fields:
  "note_workspace_id (fromCouchDoc rt s doc) = note_workspace_id doc"
  "note_deleted (fromCouchDoc rt s doc) = Some (note_deleted doc = Some True)"
  "note_created_at (fromCouchDoc rt s doc) = note_created_at doc"
  "note_updated_at (fromCouchDoc rt s doc) = note_updated_at doc"
  by (simp_all add: fromCouchDoc_def NoteModel_def split: option.splits)

lemma CouchNoteRepository_findByWorkspace_listed:
  assumes "CouchNoteRepository_findByWorkspace c rt w s = (Inr listed, s')"
  shows "\<forall>note \<in> set listed. note_deleted note = Some False \<and> note_workspace_id note = w"
proof -
  obtain o1 s1 where g: "couchGetAllDocs c allNotesPath s = (o1, s1)"
    by (cases "couchGetAllDocs c allNotesPath s")
  show ?thesis
  proof (cases o1)
    case (Inl e)
    then show ?thesis
      using assms g by (simp add: CouchNoteRepository_findByWorkspace_def)
  next
    case (Inr result)
    then have l: "listed = map (\<lambda>row. toJSON (fromCouchDoc rt s1 (the (row_doc row))))
                  (filter (keepRow w) (rows result))"
      using assms g by (auto simp: CouchNoteRepository_findByWorkspace_def)
    show ?thesis
      unfolding l
      by (auto simp: keepRow_def fromCouchDoc_fields split: option.splits)
  qed
qed

text \<open>
  Claim C8.  With the CouchDB adapter, the notes \<open>getNotesByWorkspace\<close> lists for a workspace
  contain no note with \<open>deleted\<close> true, and each of them has the workspace id asked for.
\<close>

theorem listing_excludes_deleted_and_foreign_notes:
  "getNotesByWorkspace (CouchNoteRepository c rt) workspaceId s = (Inr listed, s') \<Longrightarrow>
     \<forall>note \<in> set listed. note_deleted note \<noteq> Some True \<and> note_workspace_id note = workspaceId"
  using CouchNoteRepository_findByWorkspace_listed [of c rt workspaceId s listed s']
  by (simp add: getNotesByWorkspace_def CouchNoteRepository_def)

theorem listing_excludes_deleted_and_foreign_notes_witness:
  "getNotesByWorkspace (listingRepository exampleRows) ''w1'' 0 = (Inr [serverNote], 1) \<and>
   note_deleted serverNote \<noteq> Some True \<and> note_workspace_id serverNote = ''w1''"
proof -
  have l: "getNotesByWorkspace (listingRepository exampleRows) ''w1'' 0 = (Inr [serverNote], 1)"
    by (simp add: getNotesByWorkspace_def listingRepository_def CouchNoteRepository_def
          CouchNoteRepository_findByWorkspace_def couchGetAllDocs_def listingStore_def
          exampleRows_def rowOf_def keepRow_def serverNote_def fromCouchDoc_def NoteModel_def)
  show ?thesis
    using l listing_excludes_deleted_and_foreign_notes
              [of "\<lparr> dbName = ''inkdown'', client = listingStore exampleRows \<rparr>" racingRuntime
                  "''w1''" 0 "[serverNote]" 1]
    by (simp add: listingRepository_def)
qed

lemma processSingleNote_existing:
  "req_id r \<noteq> [] \<Longrightarrow> req_updated_at r \<noteq> [] \<Longrightarrow>
   findById repo (req_id r) s = (Inr (Some ex), s0) \<Longrightarrow> acceptsAsUpdate rt r ex \<Longrightarrow>
     processSingleNote repo rt r s = updateNoteFromSync repo r ex s0"
  by (simp add: processSingleNote_def handleExistingNote_cases)

lemma updateNoteFromSync_rejected:
  assumes "update repo (updatedNote r ex) s0 = (Inl error, s1)"
  shows "updateNoteFromSync repo r ex s0 =
     (if isConflict error
      then (case findById repo (req_id r) s1 of
              (Inl error', s2) \<Rightarrow> (Inl error', s2)
            | (Inr currentNote, s2) \<Rightarrow> (Inr (conflicting r (map_option serverDoc currentNote)), s2))
      else (Inl error, s1))"
  using assms by (simp add: updateNoteFromSync_def)

lemma racing_findById_first:
  "findById (racingRepository serverNote body later) ''note:c2'' 0 = (Inr (Some serverNote), 1)"
  by (simp add: racingRepository_def CouchNoteRepository_def CouchNoteRepository_findById_def
        couchGet_def racingStore_def fromCouchDoc_def NoteModel_def serverNote_def)

lemma racing_findById_gone:
  "findById (racingRepository doc body (ErrorStatus 404 ''not_found'')) noteId 2 = (Inr None, 3)"
  by (simp add: racingRepository_def CouchNoteRepository_def CouchNoteRepository_findById_def
        couchGet_def racingStore_def decimal.simps)

lemma racing_findById_unreachable:
  "findById (racingRepository doc body NoReply) noteId 2 =
     (Inl (Thrown DatabaseError ''Failed to connect to CouchDB''), 3)"
  by (simp add: racingRepository_def CouchNoteRepository_def CouchNoteRepository_findById_def
        couchGet_def racingStore_def)

lemma racing_findById_later:
  "findById (racingRepository doc body (Reply otherWriterNote)) noteId 2 =
     (Inr (Some otherWriterNote), 3)"
  by (simp add: racingRepository_def CouchNoteRepository_def CouchNoteRepository_findById_def
        couchGet_def racingStore_def fromCouchDoc_def NoteModel_def otherWriterNote_def
        serverNote_def)

lemma racing_update:
  "update (racingRepository doc ''conflict'' later) note 1 =
     (Inl (Thrown DatabaseError
             ''Failed to update note: DatabaseError: CouchDB Error: 409 - conflict''), 2)"
  by (simp add: racingRepository_def CouchNoteRepository_def CouchNoteRepository_update_def
        couchPut_def racingStore_def decimal.simps)

lemma conflict_message:
  "isConflict (Thrown DatabaseError
     ''Failed to update note: DatabaseError: CouchDB Error: 409 - conflict'')"
  by simp

lemma racing_accepts:
  "acceptsAsUpdate racingRuntime (titleOnly ''2025-01-01T16:00:00Z'' None) serverNote"
  by (simp add: acceptsAsUpdate_def titleOnly_def serverNote_def racingRuntime_def exampleDate_def)

lemma racing_processSingleNote:
  "processSingleNote (racingRepository serverNote ''conflict'' later) racingRuntime
       (titleOnly ''2025-01-01T16:00:00Z'' None) 0 =
     (case findById (racingRepository serverNote ''conflict'' later) ''note:c2'' 2 of
        (Inl error', s2) \<Rightarrow> (Inl error', s2)
      | (Inr currentNote, s2) \<Rightarrow>
          (Inr (conflicting (titleOnly ''2025-01-01T16:00:00Z'' None)
                  (map_option serverDoc currentNote)), s2))"
proof -
  let ?r = "titleOnly ''2025-01-01T16:00:00Z'' None"
  let ?repo = "racingRepository serverNote ''conflict'' later"
  have i: "req_id ?r = ''note:c2''" and i0: "req_id ?r \<noteq> []" and t0: "req_updated_at ?r \<noteq> []"
    by (simp_all add: titleOnly_def)
  have f: "findById ?repo (req_id ?r) 0 = (Inr (Some serverNote), 1)"
    by (simp only: i racing_findById_first)
  show ?thesis
    using processSingleNote_existing [OF i0 t0 f racing_accepts]
      updateNoteFromSync_rejected [OF racing_update [of serverNote later "updatedNote ?r serverNote"]]
      conflict_message
    by (simp add: i)
qed

text \<open>
  What the second fetch decides, once the message of the refused write has been taken for a
  conflict.  When the second \<^verbatim>\<open>GET\<close> answers 404, the result reports the conflict without any
  \<open>server_doc\<close>; when it gets no response, the result is a failed item and reports no
  conflict.
\<close>

lemma conflict_without_server_doc:
  "update (racingRepository serverNote ''conflict'' (ErrorStatus 404 ''not_found''))
       (updatedNote (titleOnly ''2025-01-01T16:00:00Z'' None) serverNote) 1 =
     (Inl (Thrown DatabaseError
             ''Failed to update note: DatabaseError: CouchDB Error: 409 - conflict''), 2) \<and>
   syncNotes (racingRepository serverNote ''conflict'' (ErrorStatus 404 ''not_found''))
       racingRuntime [titleOnly ''2025-01-01T16:00:00Z'' None] 0 =
     (\<lparr> results =
          [\<lparr> res_id = ''note:c2'', res_ok = False, res_rev = None, res_conflict = Some True,
             res_server_doc = None, res_error = None \<rparr>] \<rparr>, 3) \<and>
   update (racingRepository serverNote ''conflict'' NoReply)
       (updatedNote (titleOnly ''2025-01-01T16:00:00Z'' None) serverNote) 1 =
     (Inl (Thrown DatabaseError
             ''Failed to update note: DatabaseError: CouchDB Error: 409 - conflict''), 2) \<and>
   syncNotes (racingRepository serverNote ''conflict'' NoReply)
       racingRuntime [titleOnly ''2025-01-01T16:00:00Z'' None] 0 =
     (\<lparr> results =
          [\<lparr> res_id = ''note:c2'', res_ok = False, res_rev = None, res_conflict = None,
             res_server_doc = None,
             res_error = Some ''Failed to connect to CouchDB'' \<rparr>] \<rparr>, 3)"
proof -
  let ?r = "titleOnly ''2025-01-01T16:00:00Z'' None"
  have i: "req_id ?r = ''note:c2''"
    by (simp add: titleOnly_def)
  have gone: "syncNotes (racingRepository serverNote ''conflict'' (ErrorStatus 404 ''not_found''))
       racingRuntime [?r] 0 = (\<lparr> results = [conflicting ?r None] \<rparr>, 3)"
    by (simp add: syncNotes_def syncItem_def racing_processSingleNote racing_findById_gone)
  have unreachable: "syncNotes (racingRepository serverNote ''conflict'' NoReply)
       racingRuntime [?r] 0 =
     (\<lparr> results = [failed ?r (Thrown DatabaseError ''Failed to connect to CouchDB'')] \<rparr>, 3)"
    by (simp add: syncNotes_def syncItem_def racing_processSingleNote
          racing_findById_unreachable)
  show ?thesis
    using gone unreachable
      racing_update [of serverNote "ErrorStatus 404 ''not_found''" "updatedNote ?r serverNote"]
      racing_update [of serverNote NoReply "updatedNote ?r serverNote"]
    by (simp add: conflicting_def failed_def i)
qed

text \<open>
  Claim C3.  A write the store refuses for a stale revision is to be recorded with \<open>ok\<close> false,
  \<open>conflict\<close> true and the fields of the note fetched again as \<open>server_doc\<close>.  The service
  looks for the word \<^verbatim>\<open>conflict\<close> in the message of what \<open>update\<close> threw, and the adapter builds
  that message as \<^verbatim>\<open>Failed to update note: DatabaseError: CouchDB Error: 409 - \<close> followed by the
  text of the response body.  The store refuses the write with status 409 and the note of another
  writer is there to be fetched.  With the body text \<^verbatim>\<open>[object Object]\<close>, which is what the parsed
  JSON body of the store turns into, the write is refused, the item is recorded as a failed item
  without \<open>conflict\<close> and without \<open>server_doc\<close>, and the note is not fetched again.  With a body
  text that contains the word, the same refusal is recorded as the claim says.
\<close>

theorem stale_revision_rejection_is_recorded_as_plain_failure:
  "update (racingRepository serverNote ''[object Object]'' (Reply otherWriterNote))
       (updatedNote (titleOnly ''2025-01-01T16:00:00Z'' None) serverNote) 1 =
     (Inl (Thrown DatabaseError
             ''Failed to update note: DatabaseError: CouchDB Error: 409 - [object Object]''), 2) \<and>
   syncNotes (racingRepository serverNote ''[object Object]'' (Reply otherWriterNote))
       racingRuntime [titleOnly ''2025-01-01T16:00:00Z'' None] 0 =
     (\<lparr> results =
          [\<lparr> res_id = ''note:c2'', res_ok = False, res_rev = None, res_conflict = None,
             res_server_doc = None,
             res_error = Some
               ''Failed to update note: DatabaseError: CouchDB Error: 409 - [object Object]'' \<rparr>] \<rparr>,
      2) \<and>
   syncNotes (racingRepository serverNote ''conflict'' (Reply otherWriterNote))
       racingRuntime [titleOnly ''2025-01-01T16:00:00Z'' None] 0 =
     (\<lparr> results =
          [\<lparr> res_id = ''note:c2'', res_ok = False, res_rev = None, res_conflict = Some True,
             res_server_doc = Some
               \<lparr> doc_rev = Some ''3-other'', doc_title = ''Other Writer'',
                 doc_content = ''Server has newer timestamp'',
                 doc_key = ''conflict/server-newer.md'',
                 doc_updated_at = ''2025-01-01T16:00:00Z'', doc_workspace_id = ''w1'',
                 doc_deleted = Some False \<rparr>,
             res_error = None \<rparr>] \<rparr>,
      3)"
proof -
  let ?r = "titleOnly ''2025-01-01T16:00:00Z'' None"
  let ?repo = "racingRepository serverNote ''[object Object]'' (Reply otherWriterNote)"
  have i: "req_id ?r = ''note:c2''" and i0: "req_id ?r \<noteq> []" and t0: "req_updated_at ?r \<noteq> []"
    by (simp_all add: titleOnly_def)
  have f: "findById ?repo (req_id ?r) 0 = (Inr (Some serverNote), 1)"
    by (simp only: i racing_findById_first)
  have u: "update ?repo (updatedNote ?r serverNote) 1 =
     (Inl (Thrown DatabaseError
             ''Failed to update note: DatabaseError: CouchDB Error: 409 - [object Object]''), 2)"
    by (simp add: racingRepository_def CouchNoteRepository_def CouchNoteRepository_update_def
        couchPut_def racingStore_def decimal.simps)
  have p: "processSingleNote ?repo racingRuntime ?r 0 =
     (Inl (Thrown DatabaseError
             ''Failed to update note: DatabaseError: CouchDB Error: 409 - [object Object]''), 2)"
    using processSingleNote_existing [OF i0 t0 f racing_accepts]
      updateNoteFromSync_rejected [OF u]
    by simp
  have unrecognised: "syncNotes ?repo racingRuntime [?r] 0 =
     (\<lparr> results =
          [failed ?r (Thrown DatabaseError
             ''Failed to update note: DatabaseError: CouchDB Error: 409 - [object Object]'')] \<rparr>,
      2)"
    by (simp add: syncNotes_def syncItem_def p)
  have recognised: "syncNotes (racingRepository serverNote ''conflict'' (Reply otherWriterNote))
       racingRuntime [?r] 0 =
     (\<lparr> results = [conflicting ?r (Some (serverDoc otherWriterNote))] \<rparr>, 3)"
    by (simp add: syncNotes_def syncItem_def racing_processSingleNote racing_findById_later)
  show ?thesis
    using u unrecognised recognised
    by (simp add: failed_def conflicting_def serverDoc_def i otherWriterNote_def serverNote_def)
qed

lemma NoteModel_timestamps:
  "note_created_at (NoteModel rt s d) = now rt s" "note_updated_at (NoteModel rt s d) = now rt s"
  by (simp_all add: NoteModel_def)

lemma newNote_fields:
  "note_created_at (newNote rt s r) = now rt s"
  "note_updated_at (newNote rt s r) = req_updated_at r"
  "note_rev (newNote rt s r) = None"
  "note_title (newNote rt s r) = the (req_title r)"
  "note_content (newNote rt s r) = the (req_content r)"
  "note_key (newNote rt s r) = the (req_key r)"
  "note_workspace_id (newNote rt s r) = the (req_workspace_id r)"
  "note_deleted (newNote rt s r) = Some (req_deleted r = Some True)"
  by (simp_all add: newNote_def NoteModel_def split: option.splits)

lemma createNewNote_complete:
  "truthy (req_title r) \<Longrightarrow> truthy (req_content r) \<Longrightarrow> truthy (req_key r) \<Longrightarrow>
   truthy (req_workspace_id r) \<Longrightarrow>
     createNewNote repo rt r s =
       (case create repo (newNote rt s r) s of
          (Inl error, s') \<Rightarrow> (Inl error, s')
        | (Inr savedNote, s') \<Rightarrow> (Inr (saved savedNote), s'))"
  by (simp add: createNewNote_def)

lemma createNewNote_incomplete:
  "\<not> truthy (req_title r) \<or> \<not> truthy (req_content r) \<or> \<not> truthy (req_key r) \<or>
   \<not> truthy (req_workspace_id r) \<Longrightarrow>
     createNewNote repo rt r s =
       (Inl (Thrown ValidationError
               ''Title, content, key, and workspace_id are required for new notes''), s)"
  by (auto simp: createNewNote_def)

lemma processSingleNote_absent:
  "req_id r \<noteq> [] \<Longrightarrow> req_updated_at r \<noteq> [] \<Longrightarrow>
   findById repo (req_id r) s = (Inr None, s0) \<Longrightarrow>
     processSingleNote repo rt r s = createNewNote repo rt r s0"
  by (simp add: processSingleNote_def)

text \<open>
  Claim C4, amended.  The timestamps of the note each operation hands to the store.  Direct
  create: \<open>created_at\<close> and \<open>updated_at\<close> are both the reading of the server clock, so that
  \<open>updated_at\<close> is not before \<open>created_at\<close>.  Direct update: \<open>created_at\<close> is that of the
  existing note and \<open>updated_at\<close> the reading of the server clock.  Sync-create: \<open>created_at\<close> is
  the reading of the server clock and \<open>updated_at\<close> the timestamp of the item.  Sync-update:
  \<open>created_at\<close> is that of the existing note and \<open>updated_at\<close> the timestamp of the item.  On the
  two sync paths \<open>updated_at\<close> is not before \<open>created_at\<close> exactly when the timestamp of the item
  is not before \<open>created_at\<close>.
\<close>

theorem timestamps_of_written_notes:
  "createNote repo rt noteData s = create repo (directlyCreatedNote rt s noteData) s \<and>
   note_created_at (directlyCreatedNote rt s noteData) = now rt s \<and>
   note_updated_at (directlyCreatedNote rt s noteData) = now rt s \<and>
   (findById repo noteId s = (Inr (Some existingNote), s1) \<longrightarrow>
      updateNote repo rt noteId updates s =
        update repo (directlyUpdatedNote (now rt s1) updates existingNote) s1) \<and>
   note_created_at (directlyUpdatedNote nowISO updates existingNote) = note_created_at existingNote \<and>
   note_updated_at (directlyUpdatedNote nowISO updates existingNote) = nowISO \<and>
   (truthy (req_title syncRequest) \<and> truthy (req_content syncRequest) \<and>
    truthy (req_key syncRequest) \<and> truthy (req_workspace_id syncRequest) \<and>
    create repo (newNote rt s syncRequest) s = (Inr savedNote, s') \<longrightarrow>
      createNewNote repo rt syncRequest s = (Inr (saved savedNote), s')) \<and>
   note_created_at (newNote rt s syncRequest) = now rt s \<and>
   note_updated_at (newNote rt s syncRequest) = req_updated_at syncRequest \<and>
   (update repo (updatedNote syncRequest existingNote) s = (Inr savedNote, s') \<longrightarrow>
      updateNoteFromSync repo syncRequest existingNote s = (Inr (saved savedNote), s')) \<and>
   note_created_at (updatedNote syncRequest existingNote) = note_created_at existingNote \<and>
   note_updated_at (updatedNote syncRequest existingNote) = req_updated_at syncRequest \<and>
   (dateValue rt (now rt s) \<noteq> None \<longrightarrow>
      updatedNotBeforeCreated rt (directlyCreatedNote rt s noteData)) \<and>
   updatedNotBeforeCreated rt (newNote rt s syncRequest) =
     (case (dateValue rt (req_updated_at syncRequest), dateValue rt (now rt s)) of
        (Some u, Some c) \<Rightarrow> c \<le> u | _ \<Rightarrow> False) \<and>
   updatedNotBeforeCreated rt (updatedNote syncRequest existingNote) =
     (case (dateValue rt (req_updated_at syncRequest),
            dateValue rt (note_created_at existingNote)) of
        (Some u, Some c) \<Rightarrow> c \<le> u | _ \<Rightarrow> False)"
  by (auto simp: createNote_def directlyCreatedNote_def NoteModel_timestamps updateNote_def
        directlyUpdatedNote_fields createNewNote_complete newNote_fields
        updateNoteFromSync_saved updatedNote_fields updatedNotBeforeCreated_def)

text \<open>
  Claim C4 as stated fails on sync-create: an item stamped in January, synced in June, leaves a
  stored note whose \<open>updated_at\<close> is earlier than its \<open>created_at\<close>.
\<close>

theorem sync_created_note_updated_before_created:
  "syncNotes mockRepository testRuntime [creation] emptyWorld =
     (\<lparr> results =
          [\<lparr> res_id = ''note:n1'', res_ok = True, res_rev = Some ''1-1'',
             res_conflict = Some False, res_server_doc = None, res_error = None \<rparr>] \<rparr>,
      emptyWorld \<lparr> notesMap := [(''note:n1'', createdBySync)], revCounter := 2 \<rparr>) \<and>
   note_created_at createdBySync = ''2025-06-01T00:00:00.000Z'' \<and>
   note_updated_at createdBySync = ''2025-01-01T10:00:00Z'' \<and>
   dateValue testRuntime (note_created_at createdBySync) = Some 1748736000000 \<and>
   dateValue testRuntime (note_updated_at createdBySync) = Some 1735725600000 \<and>
   \<not> updatedNotBeforeCreated testRuntime createdBySync"
proof -
  have i0: "req_id creation \<noteq> []" and t0: "req_updated_at creation \<noteq> []"
    by (simp_all add: creation_def)
  have f: "findById mockRepository (req_id creation) emptyWorld = (Inr None, emptyWorld)"
    by (simp add: mockRepository_def Mock_findById_def emptyWorld_def)
  have n: "newNote testRuntime emptyWorld creation = createdBySync \<lparr> note_rev := None \<rparr>"
    by (simp add: newNote_def NoteModel_def creation_def testRuntime_def emptyWorld_def
          createdBySync_def)
  have c: "create mockRepository (createdBySync \<lparr> note_rev := None \<rparr>) emptyWorld =
      (Inr createdBySync,
       emptyWorld \<lparr> notesMap := [(''note:n1'', createdBySync)], revCounter := 2 \<rparr>)"
    by (simp add: mockRepository_def Mock_create_def Let_def emptyWorld_def createdBySync_def
          decimal.simps)
  have p: "processSingleNote mockRepository testRuntime creation emptyWorld =
      (Inr (saved createdBySync),
       emptyWorld \<lparr> notesMap := [(''note:n1'', createdBySync)], revCounter := 2 \<rparr>)"
  proof -
    have "truthy (req_title creation)" "truthy (req_content creation)"
      "truthy (req_key creation)" "truthy (req_workspace_id creation)"
      by (simp_all add: creation_def)
    then have "createNewNote mockRepository testRuntime creation emptyWorld =
      (Inr (saved createdBySync),
       emptyWorld \<lparr> notesMap := [(''note:n1'', createdBySync)], revCounter := 2 \<rparr>)"
      by (simp only: createNewNote_complete n c prod.case sum.case)
    then show ?thesis
      by (simp only: processSingleNote_absent [OF i0 t0 f, of testRuntime])
  qed
  have s: "syncNotes mockRepository testRuntime [creation] emptyWorld =
     (\<lparr> results = [saved createdBySync] \<rparr>,
      emptyWorld \<lparr> notesMap := [(''note:n1'', createdBySync)], revCounter := 2 \<rparr>)"
    by (simp add: syncNotes_def syncItem_def p)
  show ?thesis
    by (simp add: s saved_def, simp add: createdBySync_def testRuntime_def exampleDate_def
          updatedNotBeforeCreated_def)
qed

theorem timestamps_of_written_notes_witness:
  "createNewNote mockRepository testRuntime creation emptyWorld =
     (Inr (saved createdBySync),
      emptyWorld \<lparr> notesMap := [(''note:n1'', createdBySync)], revCounter := 2 \<rparr>) \<and>
   note_created_at (newNote testRuntime emptyWorld creation) = ''2025-06-01T00:00:00.000Z'' \<and>
   note_updated_at (newNote testRuntime emptyWorld creation) = ''2025-01-01T10:00:00Z'' \<and>
   updatedNotBeforeCreated testRuntime (directlyCreatedNote testRuntime emptyWorld validNoteCreate) \<and>
   updateNote mockRepository testRuntime ''note:c2'' onlyTitle seededWorld =
     update mockRepository
       (directlyUpdatedNote ''2025-06-01T00:00:00.000Z'' onlyTitle serverNote) seededWorld \<and>
   updateNoteFromSync mockRepository (titleOnly ''2025-01-01T16:00:00Z'' None) serverNote
       seededWorld =
     (Inr (saved (serverNote \<lparr> note_rev := Some ''1-updated'', note_title := ''Client Version'',
                                 note_updated_at := ''2025-01-01T16:00:00Z'' \<rparr>)),
      seededWorld
        \<lparr> notesMap :=
            [(''note:c2'',
              serverNote \<lparr> note_rev := Some ''1-updated'', note_title := ''Client Version'',
                           note_updated_at := ''2025-01-01T16:00:00Z'' \<rparr>)],
          revCounter := 2 \<rparr>)"
proof -
  let ?r = "titleOnly ''2025-01-01T16:00:00Z'' None"
  have tr: "truthy (req_title creation)" "truthy (req_content creation)"
      "truthy (req_key creation)" "truthy (req_workspace_id creation)"
      and up: "req_updated_at creation = ''2025-01-01T10:00:00Z''"
    by (simp_all add: creation_def)
  have n: "newNote testRuntime emptyWorld creation = createdBySync \<lparr> note_rev := None \<rparr>"
    by (simp add: newNote_def NoteModel_def creation_def testRuntime_def emptyWorld_def
          createdBySync_def)
  have c: "create mockRepository (newNote testRuntime emptyWorld creation) emptyWorld =
      (Inr createdBySync,
       emptyWorld \<lparr> notesMap := [(''note:n1'', createdBySync)], revCounter := 2 \<rparr>)"
    unfolding n
    by (simp add: mockRepository_def Mock_create_def Let_def emptyWorld_def createdBySync_def
          decimal.simps)
  have w: "now testRuntime emptyWorld = ''2025-06-01T00:00:00.000Z''"
      "now testRuntime seededWorld = ''2025-06-01T00:00:00.000Z''"
      "dateValue testRuntime ''2025-06-01T00:00:00.000Z'' \<noteq> None"
    by (simp_all add: testRuntime_def emptyWorld_def seededWorld_def exampleDate_def)
  have f: "findById mockRepository ''note:c2'' seededWorld = (Inr (Some serverNote), seededWorld)"
    by (simp add: mockRepository_def Mock_findById_def seededWorld_def)
  have u: "update mockRepository (updatedNote ?r serverNote) seededWorld =
     (Inr (serverNote \<lparr> note_rev := Some ''1-updated'', note_title := ''Client Version'',
                          note_updated_at := ''2025-01-01T16:00:00Z'' \<rparr>),
      seededWorld
        \<lparr> notesMap :=
            [(''note:c2'',
              serverNote \<lparr> note_rev := Some ''1-updated'', note_title := ''Client Version'',
                           note_updated_at := ''2025-01-01T16:00:00Z'' \<rparr>)],
          revCounter := 2 \<rparr>)"
    by (simp add: mockRepository_def Mock_update_def updatedNote_def titleOnly_def Let_def
          seededWorld_def serverNote_def decimal.simps)
  show ?thesis
    using tr up c w f u
      timestamps_of_written_notes
        [where repo = mockRepository and rt = testRuntime and s = emptyWorld
           and noteData = validNoteCreate and syncRequest = creation
           and savedNote = createdBySync
           and s' = "emptyWorld \<lparr> notesMap := [(''note:n1'', createdBySync)], revCounter := 2 \<rparr>"]
      timestamps_of_written_notes
        [where repo = mockRepository and rt = testRuntime and s = seededWorld
           and noteId = "''note:c2''" and existingNote = serverNote and ?s1.0 = seededWorld
           and updates = onlyTitle and syncRequest = ?r
           and savedNote = "serverNote \<lparr> note_rev := Some ''1-updated'',
                  note_title := ''Client Version'', note_updated_at := ''2025-01-01T16:00:00Z'' \<rparr>"
           and s' = "seededWorld
        \<lparr> notesMap :=
            [(''note:c2'',
              serverNote \<lparr> note_rev := Some ''1-updated'', note_title := ''Client Version'',
                           note_updated_at := ''2025-01-01T16:00:00Z'' \<rparr>)],
          revCounter := 2 \<rparr>"]
    by simp
qed

text \<open>
  Claim C5, amended.  An item whose id has no note on the server.  If \<open>title\<close>, \<open>content\<close>,
  \<open>key\<close> or \<open>workspace_id\<close> is missing, or \<open>title\<close>, \<open>key\<close> or \<open>workspace_id\<close> is the empty text,
  the item fails with the error \<^verbatim>\<open>Title, content, key, and workspace_id are required for new notes\<close>.
  If the four are present and not empty, a note is built from the id, the four fields and the
  \<open>deleted\<close> flag of the item (false when it has none), with \<open>created_at\<close> the reading of the
  server clock and \<open>updated_at\<close> the timestamp of the item, and handed to \<open>create\<close>: when
  \<open>create\<close> returns, the result is a success with the id and revision returned and \<open>conflict\<close>
  false; when it throws, the item fails with the message of what was thrown.
\<close>

theorem sync_creation_of_unknown_id:
  "req_id syncRequest \<noteq> [] \<Longrightarrow> req_updated_at syncRequest \<noteq> [] \<Longrightarrow>
   findById repo (req_id syncRequest) s = (Inr None, s0) \<Longrightarrow>
     (req_title syncRequest = None \<or> req_content syncRequest = None \<or>
      req_key syncRequest = None \<or> req_workspace_id syncRequest = None \<or>
      req_title syncRequest = Some [] \<or> req_key syncRequest = Some [] \<or>
      req_workspace_id syncRequest = Some [] \<longrightarrow>
        syncItem repo rt syncRequest s =
          (\<lparr> res_id = req_id syncRequest, res_ok = False, res_rev = None, res_conflict = None,
             res_server_doc = None,
             res_error = Some
               ''Title, content, key, and workspace_id are required for new notes'' \<rparr>, s0)) \<and>
     (\<forall>t c k w.
        req_title syncRequest = Some t \<and> req_content syncRequest = Some c \<and>
        req_key syncRequest = Some k \<and> req_workspace_id syncRequest = Some w \<and>
        t \<noteq> [] \<and> c \<noteq> [] \<and> k \<noteq> [] \<and> w \<noteq> [] \<longrightarrow>
        (\<forall>savedNote s'.
           create repo
             \<lparr> note_id = req_id syncRequest, note_rev = None, note_title = t, note_content = c,
               note_key = k, note_updated_at = req_updated_at syncRequest,
               note_created_at = now rt s0, note_workspace_id = w,
               note_deleted = Some (case req_deleted syncRequest of
                                      Some d \<Rightarrow> d | None \<Rightarrow> False) \<rparr> s0 =
             (Inr savedNote, s') \<longrightarrow>
           syncItem repo rt syncRequest s =
             (\<lparr> res_id = note_id savedNote, res_ok = True, res_rev = note_rev savedNote,
                res_conflict = Some False, res_server_doc = None, res_error = None \<rparr>, s')) \<and>
        (\<forall>error s'.
           create repo
             \<lparr> note_id = req_id syncRequest, note_rev = None, note_title = t, note_content = c,
               note_key = k, note_updated_at = req_updated_at syncRequest,
               note_created_at = now rt s0, note_workspace_id = w,
               note_deleted = Some (case req_deleted syncRequest of
                                      Some d \<Rightarrow> d | None \<Rightarrow> False) \<rparr> s0 =
             (Inl error, s') \<longrightarrow>
           syncItem repo rt syncRequest s =
             (\<lparr> res_id = req_id syncRequest, res_ok = False, res_rev = None,
                res_conflict = None, res_server_doc = None,
                res_error = Some (case error of
                                    Thrown c m \<Rightarrow> m
                                  | NonError v \<Rightarrow> ''Unknown error occurred'') \<rparr>, s')))"
proof -
  assume a: "req_id syncRequest \<noteq> []" "req_updated_at syncRequest \<noteq> []"
    "findById repo (req_id syncRequest) s = (Inr None, s0)"
  have p: "processSingleNote repo rt syncRequest s = createNewNote repo rt syncRequest s0"
    by (rule processSingleNote_absent [OF a])
  have n: "newNote rt s0 syncRequest =
      \<lparr> note_id = req_id syncRequest, note_rev = None, note_title = t, note_content = c,
        note_key = k, note_updated_at = req_updated_at syncRequest,
        note_created_at = now rt s0, note_workspace_id = w,
        note_deleted = Some (case req_deleted syncRequest of Some d \<Rightarrow> d | None \<Rightarrow> False) \<rparr>"
    if "req_title syncRequest = Some t" "req_content syncRequest = Some c"
       "req_key syncRequest = Some k" "req_workspace_id syncRequest = Some w" for t c k w
    using that a(1) by (simp add: newNote_def NoteModel_def)
  show ?thesis
  proof (intro conjI impI allI)
    assume "req_title syncRequest = None \<or> req_content syncRequest = None \<or>
      req_key syncRequest = None \<or> req_workspace_id syncRequest = None \<or>
      req_title syncRequest = Some [] \<or> req_key syncRequest = Some [] \<or>
      req_workspace_id syncRequest = Some []"
    then have "\<not> truthy (req_title syncRequest) \<or> \<not> truthy (req_content syncRequest) \<or>
       \<not> truthy (req_key syncRequest) \<or> \<not> truthy (req_workspace_id syncRequest)"
      by auto
    then show "syncItem repo rt syncRequest s =
          (\<lparr> res_id = req_id syncRequest, res_ok = False, res_rev = None, res_conflict = None,
             res_server_doc = None,
             res_error = Some
               ''Title, content, key, and workspace_id are required for new notes'' \<rparr>, s0)"
      by (simp only: syncItem_def p createNewNote_incomplete) (simp add: failed_def)
  next
    fix t c k w savedNote s'
    assume h: "req_title syncRequest = Some t \<and> req_content syncRequest = Some c \<and>
        req_key syncRequest = Some k \<and> req_workspace_id syncRequest = Some w \<and>
        t \<noteq> [] \<and> c \<noteq> [] \<and> k \<noteq> [] \<and> w \<noteq> []"
    assume "create repo
             \<lparr> note_id = req_id syncRequest, note_rev = None, note_title = t, note_content = c,
               note_key = k, note_updated_at = req_updated_at syncRequest,
               note_created_at = now rt s0, note_workspace_id = w,
               note_deleted = Some (case req_deleted syncRequest of
                                      Some d \<Rightarrow> d | None \<Rightarrow> False) \<rparr> s0 =
             (Inr savedNote, s')"
    then have "create repo (newNote rt s0 syncRequest) s0 = (Inr savedNote, s')"
      using h n by simp
    then show "syncItem repo rt syncRequest s =
             (\<lparr> res_id = note_id savedNote, res_ok = True, res_rev = note_rev savedNote,
                res_conflict = Some False, res_server_doc = None, res_error = None \<rparr>, s')"
      using h by (simp add: syncItem_def p createNewNote_complete saved_def)
  next
    fix t c k w error s'
    assume h: "req_title syncRequest = Some t \<and> req_content syncRequest = Some c \<and>
        req_key syncRequest = Some k \<and> req_workspace_id syncRequest = Some w \<and>
        t \<noteq> [] \<and> c \<noteq> [] \<and> k \<noteq> [] \<and> w \<noteq> []"
    assume "create repo
             \<lparr> note_id = req_id syncRequest, note_rev = None, note_title = t, note_content = c,
               note_key = k, note_updated_at = req_updated_at syncRequest,
               note_created_at = now rt s0, note_workspace_id = w,
               note_deleted = Some (case req_deleted syncRequest of
                                      Some d \<Rightarrow> d | None \<Rightarrow> False) \<rparr> s0 =
             (Inl error, s')"
    then have "create repo (newNote rt s0 syncRequest) s0 = (Inl error, s')"
      using h n by simp
    then show "syncItem repo rt syncRequest s =
             (\<lparr> res_id = req_id syncRequest, res_ok = False, res_rev = None,
                res_conflict = None, res_server_doc = None,
                res_error = Some (case error of
                                    Thrown c m \<Rightarrow> m
                                  | NonError v \<Rightarrow> ''Unknown error occurred'') \<rparr>, s')"
      using h by (simp add: syncItem_def p createNewNote_complete failed_def)
  qed
qed

theorem sync_creation_of_unknown_id_witness:
  "syncItem mockRepository testRuntime creation emptyWorld =
     (\<lparr> res_id = ''note:n1'', res_ok = True, res_rev = Some ''1-1'', res_conflict = Some False,
        res_server_doc = None, res_error = None \<rparr>,
      emptyWorld \<lparr> notesMap := [(''note:n1'', createdBySync)], revCounter := 2 \<rparr>) \<and>
   syncItem mockRepository testRuntime (creation \<lparr> req_key := None \<rparr>) emptyWorld =
     (\<lparr> res_id = ''note:n1'', res_ok = False, res_rev = None, res_conflict = None,
        res_server_doc = None,
        res_error = Some ''Title, content, key, and workspace_id are required for new notes'' \<rparr>,
      emptyWorld)"
proof -
  have i0: "req_id creation \<noteq> []" and t0: "req_updated_at creation \<noteq> []"
    and i1: "req_id (creation \<lparr> req_key := None \<rparr>) \<noteq> []"
    and t1: "req_updated_at (creation \<lparr> req_key := None \<rparr>) \<noteq> []"
    by (simp_all add: creation_def)
  have f: "findById mockRepository (req_id creation) emptyWorld = (Inr None, emptyWorld)"
    and g: "findById mockRepository (req_id (creation \<lparr> req_key := None \<rparr>)) emptyWorld =
              (Inr None, emptyWorld)"
    by (simp_all add: mockRepository_def Mock_findById_def emptyWorld_def)
  have c: "create mockRepository (createdBySync \<lparr> note_rev := None \<rparr>) emptyWorld =
      (Inr createdBySync,
       emptyWorld \<lparr> notesMap := [(''note:n1'', createdBySync)], revCounter := 2 \<rparr>)"
    by (simp add: mockRepository_def Mock_create_def Let_def emptyWorld_def createdBySync_def
          decimal.simps)
  have w: "now testRuntime emptyWorld = ''2025-06-01T00:00:00.000Z''"
    by (simp add: testRuntime_def emptyWorld_def)
  have d: "createdBySync \<lparr> note_rev := None \<rparr> =
      \<lparr> note_id = ''note:n1'', note_rev = None, note_title = ''T'', note_content = ''C'',
        note_key = ''a/b.md'', note_updated_at = ''2025-01-01T10:00:00Z'',
        note_created_at = ''2025-06-01T00:00:00.000Z'', note_workspace_id = ''w1'',
        note_deleted = Some False \<rparr>"
    by (simp add: createdBySync_def)
  have first: "syncItem mockRepository testRuntime creation emptyWorld =
     (\<lparr> res_id = ''note:n1'', res_ok = True, res_rev = Some ''1-1'', res_conflict = Some False,
        res_server_doc = None, res_error = None \<rparr>,
      emptyWorld \<lparr> notesMap := [(''note:n1'', createdBySync)], revCounter := 2 \<rparr>)"
    using sync_creation_of_unknown_id [OF i0 t0 f, of testRuntime] c [unfolded d] w
    by (simp add: creation_def createdBySync_def)
  have second: "syncItem mockRepository testRuntime (creation \<lparr> req_key := None \<rparr>) emptyWorld =
     (\<lparr> res_id = ''note:n1'', res_ok = False, res_rev = None, res_conflict = None,
        res_server_doc = None,
        res_error = Some ''Title, content, key, and workspace_id are required for new notes'' \<rparr>,
      emptyWorld)"
    using sync_creation_of_unknown_id [OF i1 t1 g, of testRuntime]
    by (simp add: creation_def)
  show ?thesis
    using first second by simp
qed

text \<open>
  Claim C5 as stated fails on an item whose four fields are all present, the title being the
  empty text: no note is built.
\<close>

theorem present_but_empty_title_is_refused:
  "req_title untitledCreation = Some [] \<and> req_content untitledCreation = Some ''C'' \<and>
   req_key untitledCreation = Some ''a/b.md'' \<and> req_workspace_id untitledCreation = Some ''w1'' \<and>
   findById mockRepository (req_id untitledCreation) emptyWorld = (Inr None, emptyWorld) \<and>
   syncNotes mockRepository testRuntime [untitledCreation] emptyWorld =
     (\<lparr> results =
          [\<lparr> res_id = ''note:n1'', res_ok = False, res_rev = None, res_conflict = None,
             res_server_doc = None,
             res_error = Some
               ''Title, content, key, and workspace_id are required for new notes'' \<rparr>] \<rparr>,
      emptyWorld)"
proof -
  have i0: "req_id untitledCreation \<noteq> []" and t0: "req_updated_at untitledCreation \<noteq> []"
    and i: "req_id untitledCreation = ''note:n1''"
    by (simp_all add: untitledCreation_def creation_def)
  have f: "findById mockRepository (req_id untitledCreation) emptyWorld = (Inr None, emptyWorld)"
    by (simp add: mockRepository_def Mock_findById_def emptyWorld_def)
  have e: "\<not> truthy (req_title untitledCreation)"
    by (simp add: untitledCreation_def)
  have p: "processSingleNote mockRepository testRuntime untitledCreation emptyWorld =
      (Inl (Thrown ValidationError
              ''Title, content, key, and workspace_id are required for new notes''), emptyWorld)"
    using createNewNote_incomplete [of untitledCreation mockRepository testRuntime emptyWorld] e
    by (simp only: processSingleNote_absent [OF i0 t0 f]) simp
  have s: "syncNotes mockRepository testRuntime [untitledCreation] emptyWorld =
     (\<lparr> results =
          [\<lparr> res_id = ''note:n1'', res_ok = False, res_rev = None, res_conflict = None,
             res_server_doc = None,
             res_error = Some
               ''Title, content, key, and workspace_id are required for new notes'' \<rparr>] \<rparr>,
      emptyWorld)"
    by (simp add: syncNotes_def syncItem_def p failed_def i)
  show ?thesis
    using f s by (simp add: untitledCreation_def creation_def)
qed

text \<open>
  The guard of \<open>createNewNote\<close> tests \<open>content\<close> the same way, so an item for a new note with
  the empty text as content is refused as well, whereas \<open>updateNoteFromSync\<close> and \<open>updateNote\<close>
  take an empty text for a supplied field.
\<close>

lemma present_but_empty_content_is_refused:
  "createNewNote repo rt (creation \<lparr> req_content := Some [] \<rparr>) s =
     (Inl (Thrown ValidationError
             ''Title, content, key, and workspace_id are required for new notes''), s)"
  by (simp add: createNewNote_incomplete)

end
